theory Spec2Isabelle
  imports Main "HOL-Library.Sublist"
begin

section \<open>The remote store\<close>

text \<open>
  The application keeps no data of its own: every function of
  \<^verbatim>\<open>blog_app_supabase.py\<close> talks to four tables of a hosted relational store
  (users, posts, comments, likes) through a client object. The tables are lists of rows,
  in insertion order; identifiers and timestamps are natural numbers.
\<close>

type_synonym ident = nat
type_synonym timestamp = nat

record user_row =
  u_id :: ident
  u_username :: string
  u_email :: string
  u_password :: string
  u_bio :: string
  u_created_at :: timestamp

record post_row =
  p_id :: ident
  p_user_id :: ident
  p_title :: string
  p_content :: string
  p_category :: string
  p_views :: int
  p_created_at :: timestamp
  p_updated_at :: timestamp

record comment_row =
  c_id :: ident
  c_post_id :: ident
  c_user_id :: ident
  c_content :: string
  c_parent_id :: "ident option"
  c_created_at :: timestamp

record like_row =
  l_id :: ident
  l_post_id :: ident
  l_user_id :: ident
  l_created_at :: timestamp

text \<open>
  What the body of a database function can raise: the failures of a call of the client's
  \<^verbatim>\<open>execute()\<close> (the network, a uniqueness constraint, any other constraint of the
  store) and Python's own \<^verbatim>\<open>IndexError\<close> and \<^verbatim>\<open>TypeError\<close>. The source never looks at the
  exception:
  every handler is \<^verbatim>\<open>except Exception\<close> or a bare \<^verbatim>\<open>except\<close>.
\<close>

datatype error = NetworkError | UniqueViolation | ConstraintViolation | IndexError | TypeError

text \<open>
  The world the functions run in: the four tables, the store's identifier sequences, the
  clock read by \<^verbatim>\<open>datetime.now()\<close>, and a schedule of what the network does to the next
  calls of \<^verbatim>\<open>execute()\<close>: \<open>None\<close> lets the call through, \<open>Some e\<close> makes it raise
  \<open>e\<close> without touching the tables. Past the end of the schedule every call goes through.
\<close>

record store =
  users :: "user_row list"
  posts :: "post_row list"
  comments :: "comment_row list"
  likes :: "like_row list"
  users_seq :: ident
  posts_seq :: ident
  comments_seq :: ident
  likes_seq :: ident
  clock :: timestamp
  faults :: "error option list"

type_synonym 'a query = "store \<Rightarrow> error + ('a \<times> store)"

definition next_fault :: "store \<Rightarrow> error option" where
  "next_fault db = (case faults db of [] \<Rightarrow> None | f # _ \<Rightarrow> f)"

definition execute :: "'a query \<Rightarrow> store \<Rightarrow> (error + 'a) \<times> store" where
  "execute q db =
     (let db1 = db\<lparr>faults := tl (faults db)\<rparr>
      in case next_fault db of
           Some e \<Rightarrow> (Inl e, db1)
         | None \<Rightarrow>
             (case q db1 of
                Inl e \<Rightarrow> (Inl e, db1)
              | Inr (v, db2) \<Rightarrow> (Inr v, db2)))"

text \<open>\<^verbatim>\<open>datetime.now().isoformat()\<close>: reads the clock, which moves on.\<close>

definition now :: "store \<Rightarrow> timestamp \<times> store" where
  "now db = (clock db, db\<lparr>clock := Suc (clock db)\<rparr>)"

subsection \<open>Queries\<close>

text \<open>
  The client's query builder: \<^verbatim>\<open>select\<close> with \<^verbatim>\<open>eq\<close> filters keeps the rows that
  satisfy the filter, \<^verbatim>\<open>update\<close> patches them, \<^verbatim>\<open>delete\<close> removes them.
\<close>

definition select_rows :: "('r \<Rightarrow> bool) \<Rightarrow> 'r list \<Rightarrow> 'r list" where
  "select_rows P rows = filter P rows"

definition update_rows :: "('r \<Rightarrow> bool) \<Rightarrow> ('r \<Rightarrow> 'r) \<Rightarrow> 'r list \<Rightarrow> 'r list" where
  "update_rows P patch rows = map (\<lambda>r. if P r then patch r else r) rows"

definition delete_rows :: "('r \<Rightarrow> bool) \<Rightarrow> 'r list \<Rightarrow> 'r list" where
  "delete_rows P rows = filter (\<lambda>r. \<not> P r) rows"

text \<open>
  The builder's method \<^verbatim>\<open>order\<close>. In the client library its signature is
  \<^verbatim>\<open>order(column, *, desc=False, nullsfirst=False, foreign_table=None)\<close>: with the keyword
  \<^verbatim>\<open>desc\<close> it sorts the rows of the query by the column, descending when the flag is
  set. It has no keyword \<^verbatim>\<open>ascending\<close>: a call that passes one raises
  \<^verbatim>\<open>TypeError\<close> while the query is built, before \<^verbatim>\<open>execute()\<close> is reached and
  before anything is sent to the store. Rows with equal timestamps keep their table order
  in the ascending result.
\<close>

datatype order_keyword = Kw_desc bool | Kw_ascending bool

definition order_by ::
  "('r \<Rightarrow> timestamp) \<Rightarrow> order_keyword \<Rightarrow> 'r list query \<Rightarrow> error + 'r list query" where
  "order_by column kw q =
     (case kw of
        Kw_desc d \<Rightarrow>
          Inr (\<lambda>db. case q db of
                      Inl e \<Rightarrow> Inl e
                    | Inr (rows, db1) \<Rightarrow>
                        Inr (if d then rev (sort_key column rows) else sort_key column rows, db1))
      | Kw_ascending _ \<Rightarrow> Inl TypeError)"

text \<open>
  Modelled from the spec: the schema of the tables is not part of the source file. The
  spec's data model (section 3) gives \<open>username\<close> as unique in \<open>users\<close> and says that
  no uniqueness is enforced on \<open>likes\<close>; so an insert into \<open>users\<close> whose username is
  taken, or that repeats a username within the inserted rows, raises \<open>UniqueViolation\<close>,
  and inserts into the other tables are unconstrained. The store numbers the rows it
  inserts from the table's sequence.
\<close>

fun number_users :: "ident \<Rightarrow> user_row list \<Rightarrow> user_row list" where
  "number_users n [] = []"
| "number_users n (r # rs) = r\<lparr>u_id := n\<rparr> # number_users (Suc n) rs"

definition insert_users :: "user_row list \<Rightarrow> user_row list query" where
  "insert_users rows db =
     (if (\<exists>r \<in> set rows. u_username r \<in> set (map u_username (users db)))
         \<or> \<not> distinct (map u_username rows)
      then Inl UniqueViolation
      else (let new = number_users (users_seq db) rows
            in Inr (new, db\<lparr>users := users db @ new,
                             users_seq := users_seq db + length rows\<rparr>)))"

fun number_posts :: "ident \<Rightarrow> post_row list \<Rightarrow> post_row list" where
  "number_posts n [] = []"
| "number_posts n (r # rs) = r\<lparr>p_id := n\<rparr> # number_posts (Suc n) rs"

definition insert_posts :: "post_row list \<Rightarrow> post_row list query" where
  "insert_posts rows db =
     (let new = number_posts (posts_seq db) rows
      in Inr (new, db\<lparr>posts := posts db @ new,
                       posts_seq := posts_seq db + length rows\<rparr>))"

definition insert_comment :: "comment_row \<Rightarrow> comment_row list query" where
  "insert_comment row db =
     (let new = row\<lparr>c_id := comments_seq db\<rparr>
      in Inr ([new], db\<lparr>comments := comments db @ [new],
                         comments_seq := Suc (comments_seq db)\<rparr>))"

definition insert_like :: "like_row \<Rightarrow> like_row list query" where
  "insert_like row db =
     (let new = row\<lparr>l_id := likes_seq db\<rparr>
      in Inr ([new], db\<lparr>likes := likes db @ [new],
                         likes_seq := Suc (likes_seq db)\<rparr>))"

definition select_users :: "(user_row \<Rightarrow> bool) \<Rightarrow> user_row list query" where
  "select_users P db = Inr (select_rows P (users db), db)"

definition update_users :: "(user_row \<Rightarrow> bool) \<Rightarrow> (user_row \<Rightarrow> user_row) \<Rightarrow> unit query" where
  "update_users P patch db = Inr ((), db\<lparr>users := update_rows P patch (users db)\<rparr>)"

definition select_posts :: "(post_row \<Rightarrow> bool) \<Rightarrow> post_row list query" where
  "select_posts P db = Inr (select_rows P (posts db), db)"

definition update_posts :: "(post_row \<Rightarrow> bool) \<Rightarrow> (post_row \<Rightarrow> post_row) \<Rightarrow> unit query" where
  "update_posts P patch db = Inr ((), db\<lparr>posts := update_rows P patch (posts db)\<rparr>)"

definition delete_posts :: "(post_row \<Rightarrow> bool) \<Rightarrow> unit query" where
  "delete_posts P db = Inr ((), db\<lparr>posts := delete_rows P (posts db)\<rparr>)"

definition select_comments :: "(comment_row \<Rightarrow> bool) \<Rightarrow> comment_row list query" where
  "select_comments P db = Inr (select_rows P (comments db), db)"

definition delete_comments :: "(comment_row \<Rightarrow> bool) \<Rightarrow> unit query" where
  "delete_comments P db = Inr ((), db\<lparr>comments := delete_rows P (comments db)\<rparr>)"

definition select_likes :: "(like_row \<Rightarrow> bool) \<Rightarrow> like_row list query" where
  "select_likes P db = Inr (select_rows P (likes db), db)"

definition delete_likes :: "(like_row \<Rightarrow> bool) \<Rightarrow> unit query" where
  "delete_likes P db = Inr ((), db\<lparr>likes := delete_rows P (likes db)\<rparr>)"

text \<open>
  The embedded resource \<^verbatim>\<open>users(username)\<close> of a select on posts or comments: the
  username of the row's owner, \<open>None\<close> when no user has that id.
\<close>

definition author_of :: "store \<Rightarrow> ident \<Rightarrow> string option" where
  "author_of db uid =
     (case select_rows (\<lambda>u. u_id u = uid) (users db) of
        [] \<Rightarrow> None
      | u # _ \<Rightarrow> Some (u_username u))"

section \<open>Database functions\<close>

text \<open>
  Each function of the source wraps its body in \<^verbatim>\<open>try\<close> with a handler that returns a
  fixed value. The bodies below return \<open>Inl e\<close> where the source raises; \<open>try_except\<close>
  is the handler.
\<close>

definition try_except :: "(error + 'a) \<times> store \<Rightarrow> 'a \<Rightarrow> 'a \<times> store" where
  "try_except r dflt = (case r of (Inl e, db) \<Rightarrow> (dflt, db) | (Inr v, db) \<Rightarrow> (v, db))"

text \<open>
  \<^verbatim>\<open>hash_password\<close> is \<^verbatim>\<open>hashlib.sha256(password.encode()).hexdigest()\<close>. The digest
  function belongs to the Python library; it is the parameter \<open>sha256\<close> of every
  function that hashes.
\<close>

definition hash_password :: "(string \<Rightarrow> string) \<Rightarrow> string \<Rightarrow> string" where
  "hash_password sha256 password = sha256 password"

subsection \<open>Users\<close>

record user_info =
  ui_id :: ident
  ui_username :: string
  ui_email :: string

record user_profile =
  up_id :: ident
  up_username :: string
  up_email :: string
  up_bio :: string
  up_created_at :: timestamp

definition create_user_body ::
  "(string \<Rightarrow> string) \<Rightarrow> string \<Rightarrow> string \<Rightarrow> string \<Rightarrow> string \<Rightarrow> store \<Rightarrow> (error + bool) \<times> store" where
  "create_user_body sha256 username email password bio db =
     (let hashed_pw = hash_password sha256 password;
          (t, db1) = now db
      in case execute (insert_users
                [\<lparr>u_id = 0, u_username = username, u_email = email, u_password = hashed_pw,
                  u_bio = bio, u_created_at = t\<rparr>]) db1 of
           (Inl e, db2) \<Rightarrow> (Inl e, db2)
         | (Inr response, db2) \<Rightarrow> (Inr True, db2))"

definition create_user ::
  "(string \<Rightarrow> string) \<Rightarrow> string \<Rightarrow> string \<Rightarrow> string \<Rightarrow> string \<Rightarrow> store \<Rightarrow> bool \<times> store" where
  "create_user sha256 username email password bio db =
     try_except (create_user_body sha256 username email password bio db) False"

definition authenticate_user_body ::
  "(string \<Rightarrow> string) \<Rightarrow> string \<Rightarrow> string \<Rightarrow> store \<Rightarrow> (error + user_info option) \<times> store" where
  "authenticate_user_body sha256 username password db =
     (let hashed_pw = hash_password sha256 password
      in case execute (select_users (\<lambda>u. u_username u = username \<and> u_password u = hashed_pw)) db of
           (Inl e, db1) \<Rightarrow> (Inl e, db1)
         | (Inr data, db1) \<Rightarrow>
             (case data of
                u # _ \<Rightarrow> (Inr (Some \<lparr>ui_id = u_id u, ui_username = u_username u,
                                     ui_email = u_email u\<rparr>), db1)
              | [] \<Rightarrow> (Inr None, db1)))"

definition authenticate_user ::
  "(string \<Rightarrow> string) \<Rightarrow> string \<Rightarrow> string \<Rightarrow> store \<Rightarrow> user_info option \<times> store" where
  "authenticate_user sha256 username password db =
     try_except (authenticate_user_body sha256 username password db) None"

definition get_user_by_id_body :: "ident \<Rightarrow> store \<Rightarrow> (error + user_profile option) \<times> store" where
  "get_user_by_id_body user_id db =
     (case execute (select_users (\<lambda>u. u_id u = user_id)) db of
        (Inl e, db1) \<Rightarrow> (Inl e, db1)
      | (Inr data, db1) \<Rightarrow>
          (case data of
             u # _ \<Rightarrow> (Inr (Some \<lparr>up_id = u_id u, up_username = u_username u,
                                  up_email = u_email u, up_bio = u_bio u,
                                  up_created_at = u_created_at u\<rparr>), db1)
           | [] \<Rightarrow> (Inr None, db1)))"

definition get_user_by_id :: "ident \<Rightarrow> store \<Rightarrow> user_profile option \<times> store" where
  "get_user_by_id user_id db = try_except (get_user_by_id_body user_id db) None"

definition update_user_profile_body ::
  "ident \<Rightarrow> string \<Rightarrow> string \<Rightarrow> store \<Rightarrow> (error + bool) \<times> store" where
  "update_user_profile_body user_id email bio db =
     (case execute (update_users (\<lambda>u. u_id u = user_id)
                      (\<lambda>u. u\<lparr>u_email := email, u_bio := bio\<rparr>)) db of
        (Inl e, db1) \<Rightarrow> (Inl e, db1)
      | (Inr response, db1) \<Rightarrow> (Inr True, db1))"

definition update_user_profile :: "ident \<Rightarrow> string \<Rightarrow> string \<Rightarrow> store \<Rightarrow> bool \<times> store" where
  "update_user_profile user_id email bio db =
     try_except (update_user_profile_body user_id email bio db) False"

text \<open>
  \<^verbatim>\<open>change_password\<close> first calls \<^verbatim>\<open>get_user_by_id\<close>, whose result it never uses and
  whose failure that function swallows itself; then it reads the stored hash and, when the
  select returned a row whose hash is the hash of the old password, writes the new hash.
\<close>

definition change_password_body ::
  "(string \<Rightarrow> string) \<Rightarrow> ident \<Rightarrow> string \<Rightarrow> string \<Rightarrow> store \<Rightarrow> (error + bool) \<times> store" where
  "change_password_body sha256 user_id old_password new_password db =
     (let (user, db1) = get_user_by_id user_id db;
          old_hashed = hash_password sha256 old_password;
          new_hashed = hash_password sha256 new_password
      in case execute (select_users (\<lambda>u. u_id u = user_id)) db1 of
           (Inl e, db2) \<Rightarrow> (Inl e, db2)
         | (Inr data, db2) \<Rightarrow>
             (case data of
                u # _ \<Rightarrow>
                  (if u_password u = old_hashed
                   then (case execute (update_users (\<lambda>u. u_id u = user_id)
                                         (\<lambda>u. u\<lparr>u_password := new_hashed\<rparr>)) db2 of
                           (Inl e, db3) \<Rightarrow> (Inl e, db3)
                         | (Inr _, db3) \<Rightarrow> (Inr True, db3))
                   else (Inr False, db2))
              | [] \<Rightarrow> (Inr False, db2)))"

definition change_password ::
  "(string \<Rightarrow> string) \<Rightarrow> ident \<Rightarrow> string \<Rightarrow> string \<Rightarrow> store \<Rightarrow> bool \<times> store" where
  "change_password sha256 user_id old_password new_password db =
     try_except (change_password_body sha256 user_id old_password new_password db) False"

subsection \<open>Posts\<close>

text \<open>A row of posts as a select returns it, with the embedded \<^verbatim>\<open>users(username)\<close>.\<close>

record post_view =
  pv_id :: ident
  pv_user_id :: ident
  pv_title :: string
  pv_content :: string
  pv_category :: string
  pv_views :: int
  pv_created_at :: timestamp
  pv_users :: "string option"

definition post_view_of :: "store \<Rightarrow> post_row \<Rightarrow> post_view" where
  "post_view_of db p =
     \<lparr>pv_id = p_id p, pv_user_id = p_user_id p, pv_title = p_title p,
      pv_content = p_content p, pv_category = p_category p, pv_views = p_views p,
      pv_created_at = p_created_at p, pv_users = author_of db (p_user_id p)\<rparr>"

text \<open>\<^verbatim>\<open>get_user_posts\<close> selects the same columns without \<^verbatim>\<open>user_id\<close>.\<close>

record user_post_view =
  upv_id :: ident
  upv_title :: string
  upv_content :: string
  upv_category :: string
  upv_views :: int
  upv_created_at :: timestamp
  upv_users :: "string option"

definition user_post_view_of :: "store \<Rightarrow> post_row \<Rightarrow> user_post_view" where
  "user_post_view_of db p =
     \<lparr>upv_id = p_id p, upv_title = p_title p, upv_content = p_content p,
      upv_category = p_category p, upv_views = p_views p,
      upv_created_at = p_created_at p, upv_users = author_of db (p_user_id p)\<rparr>"

definition create_post_body ::
  "ident \<Rightarrow> string \<Rightarrow> string \<Rightarrow> string \<Rightarrow> store \<Rightarrow> (error + ident option) \<times> store" where
  "create_post_body user_id title content category db =
     (let (t1, db1) = now db;
          (t2, db2) = now db1
      in case execute (insert_posts
                [\<lparr>p_id = 0, p_user_id = user_id, p_title = title, p_content = content,
                  p_category = category, p_views = 0, p_created_at = t1,
                  p_updated_at = t2\<rparr>]) db2 of
           (Inl e, db3) \<Rightarrow> (Inl e, db3)
         | (Inr data, db3) \<Rightarrow>
             (case data of
                p # _ \<Rightarrow> (Inr (Some (p_id p)), db3)
              | [] \<Rightarrow> (Inr None, db3)))"

definition create_post ::
  "ident \<Rightarrow> string \<Rightarrow> string \<Rightarrow> string \<Rightarrow> store \<Rightarrow> ident option \<times> store" where
  "create_post user_id title content category db =
     try_except (create_post_body user_id title content category db) None"

text \<open>
  \<^verbatim>\<open>get_all_posts\<close> builds its query with \<^verbatim>\<open>.order("created_at", ascending=False)\<close>:
  the builder raises, the handler returns the empty list, and the store is never asked.
  The same holds for \<^verbatim>\<open>get_user_posts\<close> and, with \<^verbatim>\<open>ascending=True\<close>, for
  \<^verbatim>\<open>get_comments\<close>.
\<close>

definition get_all_posts_body :: "store \<Rightarrow> (error + post_view list) \<times> store" where
  "get_all_posts_body db =
     (case order_by p_created_at (Kw_ascending False) (select_posts (\<lambda>p. True)) of
        Inl e \<Rightarrow> (Inl e, db)
      | Inr q \<Rightarrow>
          (case execute q db of
             (Inl e, db1) \<Rightarrow> (Inl e, db1)
           | (Inr data, db1) \<Rightarrow> (Inr (map (post_view_of db1) data), db1)))"

definition get_all_posts :: "store \<Rightarrow> post_view list \<times> store" where
  "get_all_posts db = try_except (get_all_posts_body db) []"

definition get_post_by_id_body :: "ident \<Rightarrow> store \<Rightarrow> (error + post_view option) \<times> store" where
  "get_post_by_id_body post_id db =
     (case execute (select_posts (\<lambda>p. p_id p = post_id)) db of
        (Inl e, db1) \<Rightarrow> (Inl e, db1)
      | (Inr data, db1) \<Rightarrow>
          (case data of
             p # _ \<Rightarrow> (Inr (Some (post_view_of db1 p)), db1)
           | [] \<Rightarrow> (Inr None, db1)))"

definition get_post_by_id :: "ident \<Rightarrow> store \<Rightarrow> post_view option \<times> store" where
  "get_post_by_id post_id db = try_except (get_post_by_id_body post_id db) None"

definition get_user_posts_body :: "ident \<Rightarrow> store \<Rightarrow> (error + user_post_view list) \<times> store" where
  "get_user_posts_body user_id db =
     (case order_by p_created_at (Kw_ascending False)
             (select_posts (\<lambda>p. p_user_id p = user_id)) of
        Inl e \<Rightarrow> (Inl e, db)
      | Inr q \<Rightarrow>
          (case execute q db of
             (Inl e, db1) \<Rightarrow> (Inl e, db1)
           | (Inr data, db1) \<Rightarrow> (Inr (map (user_post_view_of db1) data), db1)))"

definition get_user_posts :: "ident \<Rightarrow> store \<Rightarrow> user_post_view list \<times> store" where
  "get_user_posts user_id db = try_except (get_user_posts_body user_id db) []"

definition update_post_body ::
  "ident \<Rightarrow> string \<Rightarrow> string \<Rightarrow> string \<Rightarrow> store \<Rightarrow> (error + bool) \<times> store" where
  "update_post_body post_id title content category db =
     (let (t, db1) = now db
      in case execute (update_posts (\<lambda>p. p_id p = post_id)
                         (\<lambda>p. p\<lparr>p_title := title, p_content := content,
                                 p_category := category, p_updated_at := t\<rparr>)) db1 of
           (Inl e, db2) \<Rightarrow> (Inl e, db2)
         | (Inr response, db2) \<Rightarrow> (Inr True, db2))"

definition update_post ::
  "ident \<Rightarrow> string \<Rightarrow> string \<Rightarrow> string \<Rightarrow> store \<Rightarrow> bool \<times> store" where
  "update_post post_id title content category db =
     try_except (update_post_body post_id title content category db) False"

text \<open>Three deletes in a row: the comments of the post, its likes, the post.\<close>

definition delete_post_body :: "ident \<Rightarrow> store \<Rightarrow> (error + bool) \<times> store" where
  "delete_post_body post_id db =
     (case execute (delete_comments (\<lambda>c. c_post_id c = post_id)) db of
        (Inl e, db1) \<Rightarrow> (Inl e, db1)
      | (Inr _, db1) \<Rightarrow>
          (case execute (delete_likes (\<lambda>l. l_post_id l = post_id)) db1 of
             (Inl e, db2) \<Rightarrow> (Inl e, db2)
           | (Inr _, db2) \<Rightarrow>
               (case execute (delete_posts (\<lambda>p. p_id p = post_id)) db2 of
                  (Inl e, db3) \<Rightarrow> (Inl e, db3)
                | (Inr _, db3) \<Rightarrow> (Inr True, db3))))"

definition delete_post :: "ident \<Rightarrow> store \<Rightarrow> bool \<times> store" where
  "delete_post post_id db = try_except (delete_post_body post_id db) False"

text \<open>
  \<^verbatim>\<open>increment_view_count\<close> returns nothing: it reads the views of the first row with the
  id and, when there is one, writes that number plus one to every row with the id.
\<close>

definition increment_view_count_body :: "ident \<Rightarrow> store \<Rightarrow> (error + unit) \<times> store" where
  "increment_view_count_body post_id db =
     (case execute (select_posts (\<lambda>p. p_id p = post_id)) db of
        (Inl e, db1) \<Rightarrow> (Inl e, db1)
      | (Inr data, db1) \<Rightarrow>
          (case data of
             p # _ \<Rightarrow>
               (let current_views = p_views p
                in case execute (update_posts (\<lambda>p. p_id p = post_id)
                                   (\<lambda>p. p\<lparr>p_views := current_views + 1\<rparr>)) db1 of
                     (Inl e, db2) \<Rightarrow> (Inl e, db2)
                   | (Inr _, db2) \<Rightarrow> (Inr (), db2))
           | [] \<Rightarrow> (Inr (), db1)))"

definition increment_view_count :: "ident \<Rightarrow> store \<Rightarrow> unit \<times> store" where
  "increment_view_count post_id db = try_except (increment_view_count_body post_id db) ()"

subsection \<open>Comments and likes\<close>

record comment_view =
  cv_id :: ident
  cv_user_id :: ident
  cv_content :: string
  cv_created_at :: timestamp
  cv_parent_id :: "ident option"
  cv_users :: "string option"

definition comment_view_of :: "store \<Rightarrow> comment_row \<Rightarrow> comment_view" where
  "comment_view_of db c =
     \<lparr>cv_id = c_id c, cv_user_id = c_user_id c, cv_content = c_content c,
      cv_created_at = c_created_at c, cv_parent_id = c_parent_id c,
      cv_users = author_of db (c_user_id c)\<rparr>"

definition add_comment_body ::
  "ident \<Rightarrow> ident \<Rightarrow> string \<Rightarrow> ident option \<Rightarrow> store \<Rightarrow> (error + ident option) \<times> store" where
  "add_comment_body post_id user_id content parent_id db =
     (let (t, db1) = now db
      in case execute (insert_comment
                \<lparr>c_id = 0, c_post_id = post_id, c_user_id = user_id, c_content = content,
                 c_parent_id = parent_id, c_created_at = t\<rparr>) db1 of
           (Inl e, db2) \<Rightarrow> (Inl e, db2)
         | (Inr data, db2) \<Rightarrow>
             (case data of
                c # _ \<Rightarrow> (Inr (Some (c_id c)), db2)
              | [] \<Rightarrow> (Inr None, db2)))"

definition add_comment ::
  "ident \<Rightarrow> ident \<Rightarrow> string \<Rightarrow> ident option \<Rightarrow> store \<Rightarrow> ident option \<times> store" where
  "add_comment post_id user_id content parent_id db =
     try_except (add_comment_body post_id user_id content parent_id db) None"

definition get_comments_body :: "ident \<Rightarrow> store \<Rightarrow> (error + comment_view list) \<times> store" where
  "get_comments_body post_id db =
     (case order_by c_created_at (Kw_ascending True)
             (select_comments (\<lambda>c. c_post_id c = post_id)) of
        Inl e \<Rightarrow> (Inl e, db)
      | Inr q \<Rightarrow>
          (case execute q db of
             (Inl e, db1) \<Rightarrow> (Inl e, db1)
           | (Inr data, db1) \<Rightarrow> (Inr (map (comment_view_of db1) data), db1)))"

definition get_comments :: "ident \<Rightarrow> store \<Rightarrow> comment_view list \<times> store" where
  "get_comments post_id db = try_except (get_comments_body post_id db) []"

definition add_like_body :: "ident \<Rightarrow> ident \<Rightarrow> store \<Rightarrow> (error + bool) \<times> store" where
  "add_like_body post_id user_id db =
     (let (t, db1) = now db
      in case execute (insert_like
                \<lparr>l_id = 0, l_post_id = post_id, l_user_id = user_id, l_created_at = t\<rparr>) db1 of
           (Inl e, db2) \<Rightarrow> (Inl e, db2)
         | (Inr response, db2) \<Rightarrow> (Inr True, db2))"

definition add_like :: "ident \<Rightarrow> ident \<Rightarrow> store \<Rightarrow> bool \<times> store" where
  "add_like post_id user_id db = try_except (add_like_body post_id user_id db) False"

definition remove_like_body :: "ident \<Rightarrow> ident \<Rightarrow> store \<Rightarrow> (error + bool) \<times> store" where
  "remove_like_body post_id user_id db =
     (case execute (delete_likes (\<lambda>l. l_post_id l = post_id \<and> l_user_id l = user_id)) db of
        (Inl e, db1) \<Rightarrow> (Inl e, db1)
      | (Inr _, db1) \<Rightarrow> (Inr True, db1))"

definition remove_like :: "ident \<Rightarrow> ident \<Rightarrow> store \<Rightarrow> bool \<times> store" where
  "remove_like post_id user_id db = try_except (remove_like_body post_id user_id db) False"

text \<open>
  With \<^verbatim>\<open>count="exact"\<close> the response carries the number of rows that match the
  filters; the functions below return \<^verbatim>\<open>response.count\<close>.
\<close>

definition get_like_count_body :: "ident \<Rightarrow> store \<Rightarrow> (error + nat) \<times> store" where
  "get_like_count_body post_id db =
     (case execute (select_likes (\<lambda>l. l_post_id l = post_id)) db of
        (Inl e, db1) \<Rightarrow> (Inl e, db1)
      | (Inr data, db1) \<Rightarrow> (Inr (length data), db1))"

definition get_like_count :: "ident \<Rightarrow> store \<Rightarrow> nat \<times> store" where
  "get_like_count post_id db = try_except (get_like_count_body post_id db) 0"

definition check_user_liked_body :: "ident \<Rightarrow> ident \<Rightarrow> store \<Rightarrow> (error + bool) \<times> store" where
  "check_user_liked_body post_id user_id db =
     (case execute (select_likes (\<lambda>l. l_post_id l = post_id \<and> l_user_id l = user_id)) db of
        (Inl e, db1) \<Rightarrow> (Inl e, db1)
      | (Inr data, db1) \<Rightarrow> (Inr (length data > 0), db1))"

definition check_user_liked :: "ident \<Rightarrow> ident \<Rightarrow> store \<Rightarrow> bool \<times> store" where
  "check_user_liked post_id user_id db =
     try_except (check_user_liked_body post_id user_id db) False"

text \<open>The filter \<^verbatim>\<open>is_("parent_id", "null")\<close> keeps the comments that answer no comment.\<close>

definition get_comment_count_body :: "ident \<Rightarrow> store \<Rightarrow> (error + nat) \<times> store" where
  "get_comment_count_body post_id db =
     (case execute (select_comments (\<lambda>c. c_post_id c = post_id \<and> c_parent_id c = None)) db of
        (Inl e, db1) \<Rightarrow> (Inl e, db1)
      | (Inr data, db1) \<Rightarrow> (Inr (length data), db1))"

definition get_comment_count :: "ident \<Rightarrow> store \<Rightarrow> nat \<times> store" where
  "get_comment_count post_id db = try_except (get_comment_count_body post_id db) 0"

definition get_total_users_body :: "store \<Rightarrow> (error + nat) \<times> store" where
  "get_total_users_body db =
     (case execute (select_users (\<lambda>u. True)) db of
        (Inl e, db1) \<Rightarrow> (Inl e, db1)
      | (Inr data, db1) \<Rightarrow> (Inr (length data), db1))"

definition get_total_users :: "store \<Rightarrow> nat \<times> store" where
  "get_total_users db = try_except (get_total_users_body db) 0"

definition get_total_posts_body :: "store \<Rightarrow> (error + nat) \<times> store" where
  "get_total_posts_body db =
     (case execute (select_posts (\<lambda>p. True)) db of
        (Inl e, db1) \<Rightarrow> (Inl e, db1)
      | (Inr data, db1) \<Rightarrow> (Inr (length data), db1))"

definition get_total_posts :: "store \<Rightarrow> nat \<times> store" where
  "get_total_posts db = try_except (get_total_posts_body db) 0"

subsection \<open>Sample data\<close>

text \<open>
  \<^verbatim>\<open>add_sample_data\<close> fills an empty store with three users and five posts. The rows are
  built before the insert that sends them, each reading the clock; a post's owner is
  \<^verbatim>\<open>user_ids[k]\<close>, which raises \<^verbatim>\<open>IndexError\<close> when the list is too short.
\<close>

definition sample_user ::
  "(string \<Rightarrow> string) \<Rightarrow> string \<Rightarrow> string \<Rightarrow> string \<Rightarrow> store \<Rightarrow> user_row \<times> store" where
  "sample_user sha256 name email bio db =
     (let hashed = hash_password sha256 ''password123'';
          (t, db1) = now db
      in (\<lparr>u_id = 0, u_username = name, u_email = email, u_password = hashed,
           u_bio = bio, u_created_at = t\<rparr>, db1))"

definition sample_users :: "(string \<Rightarrow> string) \<Rightarrow> store \<Rightarrow> user_row list \<times> store" where
  "sample_users sha256 db =
     (let (u1, db1) = sample_user sha256 ''john_doe'' ''john@example.com''
                        ''Tech enthusiast and blogger'' db;
          (u2, db2) = sample_user sha256 ''jane_smith'' ''jane@example.com''
                        ''Travel writer and photographer'' db1;
          (u3, db3) = sample_user sha256 ''alex_coding'' ''alex@example.com''
                        ''Software engineer and open source contributor'' db2
      in ([u1, u2, u3], db3))"

definition sample_post ::
  "ident list \<Rightarrow> nat \<Rightarrow> string \<Rightarrow> string \<Rightarrow> string \<Rightarrow> store \<Rightarrow> (error + post_row) \<times> store" where
  "sample_post user_ids k title content category db =
     (if k < length user_ids
      then (let (t1, db1) = now db;
                (t2, db2) = now db1
            in (Inr \<lparr>p_id = 0, p_user_id = user_ids ! k, p_title = title,
                     p_content = content, p_category = category, p_views = 0,
                     p_created_at = t1, p_updated_at = t2\<rparr>, db2))
      else (Inl IndexError, db))"

definition sample_posts :: "ident list \<Rightarrow> store \<Rightarrow> (error + post_row list) \<times> store" where
  "sample_posts user_ids db =
     (case sample_post user_ids 0 ''Getting Started with Streamlit''
             ''Streamlit is an amazing framework for building data apps quickly. In this post, I'll explore the basics and best practices.''
             ''Technology'' db of
        (Inl e, db1) \<Rightarrow> (Inl e, db1)
      | (Inr p1, db1) \<Rightarrow>
     (case sample_post user_ids 1 ''Top 10 Travel Destinations in 2025''
             ''Planning your next adventure? Check out these incredible destinations that are perfect for 2025.''
             ''Travel'' db1 of
        (Inl e, db2) \<Rightarrow> (Inl e, db2)
      | (Inr p2, db2) \<Rightarrow>
     (case sample_post user_ids 0 ''Python Tips and Tricks''
             ''Discover some lesser-known Python features that can make your code more efficient and elegant.''
             ''Technology'' db2 of
        (Inl e, db3) \<Rightarrow> (Inl e, db3)
      | (Inr p3, db3) \<Rightarrow>
     (case sample_post user_ids 2 ''Open Source Contribution Guide''
             ''Contributing to open source projects can be intimidating at first. Here's a beginner-friendly guide to get started.''
             ''Technology'' db3 of
        (Inl e, db4) \<Rightarrow> (Inl e, db4)
      | (Inr p4, db4) \<Rightarrow>
     (case sample_post user_ids 1 ''The Ultimate Food Guide to Tokyo''
             ''Tokyo is a foodie's paradise. Let me take you through the best restaurants and street food spots I discovered.''
             ''Food'' db4 of
        (Inl e, db5) \<Rightarrow> (Inl e, db5)
      | (Inr p5, db5) \<Rightarrow> (Inr [p1, p2, p3, p4, p5], db5))))))"

definition add_sample_data_body :: "(string \<Rightarrow> string) \<Rightarrow> store \<Rightarrow> (error + unit) \<times> store" where
  "add_sample_data_body sha256 db =
     (case execute (select_users (\<lambda>u. True)) db of
        (Inl e, db1) \<Rightarrow> (Inl e, db1)
      | (Inr users_response, db1) \<Rightarrow>
          (if length users_response > 0 then (Inr (), db1)
           else
             (let (new_users, db4) = sample_users sha256 db1
              in case execute (insert_users new_users) db4 of
                   (Inl e, db5) \<Rightarrow> (Inl e, db5)
                 | (Inr _, db5) \<Rightarrow>
                     (case execute (select_users (\<lambda>u. True)) db5 of
                        (Inl e, db6) \<Rightarrow> (Inl e, db6)
                      | (Inr users_data, db6) \<Rightarrow>
                          (case sample_posts (map u_id users_data) db6 of
                             (Inl e, db7) \<Rightarrow> (Inl e, db7)
                           | (Inr new_posts, db7) \<Rightarrow>
                               (case execute (insert_posts new_posts) db7 of
                                  (Inl e, db8) \<Rightarrow> (Inl e, db8)
                                | (Inr _, db8) \<Rightarrow> (Inr (), db8)))))))"

definition add_sample_data :: "(string \<Rightarrow> string) \<Rightarrow> store \<Rightarrow> unit \<times> store" where
  "add_sample_data sha256 db = try_except (add_sample_data_body sha256 db) ()"

section \<open>Helper functions\<close>

definition get_category_class :: "string \<Rightarrow> string" where
  "get_category_class category =
     (case map_of
        [(''Technology'', ''tech-badge''), (''Lifestyle'', ''lifestyle-badge''),
         (''Travel'', ''travel-badge''), (''Food'', ''food-badge''),
         (''Health'', ''health-badge''), (''Entertainment'', ''entertainment-badge''),
         (''Education'', ''education-badge''), (''Business'', ''business-badge''),
         (''Science'', ''science-badge''), (''Other'', ''other-badge'')] category of
        Some c \<Rightarrow> c
      | None \<Rightarrow> ''other-badge'')"

definition get_excerpt :: "string \<Rightarrow> nat \<Rightarrow> string" where
  "get_excerpt content len =
     (if length content > len then take len content @ ''...'' else content)"

text \<open>
  \<^verbatim>\<open>get_author_name\<close> takes the embedded \<^verbatim>\<open>users\<close> object of a row: a dictionary with
  the username, or \<^verbatim>\<open>None\<close>, which \<^verbatim>\<open>str\<close> prints.
\<close>

definition get_author_name :: "string option \<Rightarrow> string" where
  "get_author_name user_obj = (case user_obj of Some name \<Rightarrow> name | None \<Rightarrow> ''None'')"

text \<open>
  \<^verbatim>\<open>str.lower()\<close> belongs to Python: it is the parameter \<open>str_lower\<close> of the functions
  that call it. The operator \<^verbatim>\<open>in\<close> between two strings is \<^const>\<open>sublist\<close>.
\<close>

section \<open>Session state\<close>

text \<open>
  \<^verbatim>\<open>st.session_state\<close>, with the fields and the values that the initialisation of the
  script gives it.
\<close>

record session =
  logged_in :: bool
  user_id :: "ident option"
  username :: "string option"
  email :: "string option"
  page :: string
  selected_post_id :: "ident option"
  search_query :: string
  selected_category :: string
  new_post_id :: "ident option"

definition initial_session :: session where
  "initial_session =
     \<lparr>logged_in = False, user_id = None, username = None, email = None, page = ''home'',
      selected_post_id = None, search_query = [], selected_category = ''All'',
      new_post_id = None\<rparr>"

section \<open>Pages\<close>

subsection \<open>Home page\<close>

text \<open>
  One run of \<^verbatim>\<open>page_home\<close>. Its inputs are the widgets' values: the search box, the
  category selector, and the post whose title button was pressed, if one was. It shows the
  message for an empty result or one card for each of \<^verbatim>\<open>posts[:10]\<close>; a pressed
  button selects its post, moves to the view page and ends the run with
  \<^verbatim>\<open>st.rerun()\<close>, before the rest of that card is drawn. The caption's date is kept as
  the timestamp, and the message without its emoji.
\<close>

record home_card =
  hc_post_id :: ident
  hc_title :: string
  hc_badge :: string
  hc_category :: string
  hc_author :: string
  hc_created :: timestamp
  hc_excerpt :: string
  hc_views :: int
  hc_likes :: nat
  hc_comments :: nat

record home_page =
  hp_info :: "string option"
  hp_cards :: "home_card list"
  hp_session :: session
  hp_rerun :: bool

definition home_filter ::
  "(string \<Rightarrow> string) \<Rightarrow> string \<Rightarrow> string \<Rightarrow> post_view list \<Rightarrow> post_view list" where
  "home_filter str_lower search category all_posts =
     (let found = (if search \<noteq> []
                   then (let search_lower = str_lower search
                         in filter (\<lambda>p. sublist search_lower (str_lower (pv_title p))
                                        \<or> sublist search_lower (str_lower (pv_content p)))
                              all_posts)
                   else all_posts)
      in if category \<noteq> ''All'' then filter (\<lambda>p. pv_category p = category) found else found)"

fun home_cards ::
  "ident option \<Rightarrow> post_view list \<Rightarrow> session \<Rightarrow> store \<Rightarrow> (home_card list \<times> session \<times> bool) \<times> store" where
  "home_cards pressed [] ss db = (([], ss, False), db)"
| "home_cards pressed (post # rest) ss db =
     (let post_id = pv_id post;
          author = get_author_name (pv_users post)
      in if pressed = Some post_id
         then (([], ss\<lparr>selected_post_id := Some post_id, page := ''view_post''\<rparr>, True), db)
         else (let (like_count, db1) = get_like_count post_id db;
                   (comment_count, db2) = get_comment_count post_id db1;
                   card = \<lparr>hc_post_id = post_id, hc_title = pv_title post,
                           hc_badge = get_category_class (pv_category post),
                           hc_category = pv_category post, hc_author = author,
                           hc_created = pv_created_at post,
                           hc_excerpt = get_excerpt (pv_content post) 200,
                           hc_views = pv_views post, hc_likes = like_count,
                           hc_comments = comment_count\<rparr>;
                   ((cards, ss1, rerun), db3) = home_cards pressed rest ss db2
               in ((card # cards, ss1, rerun), db3)))"

text \<open>
  \<open>home_page_of\<close> is the function from the line after \<^verbatim>\<open>posts = get_all_posts()\<close>
  on, for the list that the call returned.
\<close>

definition home_page_of ::
  "(string \<Rightarrow> string) \<Rightarrow> string \<Rightarrow> string \<Rightarrow> ident option \<Rightarrow> session \<Rightarrow> post_view list
     \<Rightarrow> store \<Rightarrow> home_page \<times> store" where
  "home_page_of str_lower search category pressed ss all_posts db1 =
     (let found = home_filter str_lower search category all_posts
      in if found = []
         then (\<lparr>hp_info = Some ''No posts found. Be the first to create one!'',
                 hp_cards = [], hp_session = ss, hp_rerun = False\<rparr>, db1)
         else (let ((cards, ss1, rerun), db2) = home_cards pressed (take 10 found) ss db1
               in (\<lparr>hp_info = None, hp_cards = cards, hp_session = ss1,
                     hp_rerun = rerun\<rparr>, db2)))"

definition page_home ::
  "(string \<Rightarrow> string) \<Rightarrow> string \<Rightarrow> string \<Rightarrow> ident option \<Rightarrow> session \<Rightarrow> store
     \<Rightarrow> home_page \<times> store" where
  "page_home str_lower search category pressed ss db =
     (let (all_posts, db1) = get_all_posts db
      in home_page_of str_lower search category pressed ss all_posts db1)"

subsection \<open>Sign-up form\<close>

text \<open>The checks of the Sign Up button in \<^verbatim>\<open>page_auth\<close>: the first that fails gives the message.\<close>

definition signup_error :: "string \<Rightarrow> string \<Rightarrow> string \<Rightarrow> string \<Rightarrow> string option" where
  "signup_error new_username new_email new_password confirm_password =
     (if new_username = [] \<or> new_email = [] \<or> new_password = []
      then Some ''Please fill in all required fields''
      else if length new_password < 6 then Some ''Password must be at least 6 characters''
      else if new_password \<noteq> confirm_password then Some ''Passwords don't match''
      else if CHR ''@'' \<notin> set new_email then Some ''Please enter a valid email''
      else None)"

section \<open>Main app\<close>

text \<open>
  \<^verbatim>\<open>main\<close> first sends a visitor who is not logged in to the home page unless the page
  is one of \<^verbatim>\<open>['home', 'browse', 'auth']\<close>, then runs the controller of the page. The
  result names what is run: a page function, or the warning of a branch that asks for a
  login; no branch matches a page name the chain does not know.
\<close>

datatype screen =
  PageHome | PageBrowse | PageCreate | PageViewPost | PageMyPosts | PageEditPost
  | PageProfile | PageAuth | Warning string | NoPage

definition main :: "session \<Rightarrow> session \<times> screen" where
  "main ss0 =
     (let ss = (if \<not> logged_in ss0 \<and> page ss0 \<notin> set [''home'', ''browse'', ''auth'']
                then ss0\<lparr>page := ''home''\<rparr> else ss0)
      in (ss,
          if page ss = ''home'' then PageHome
          else if page ss = ''browse'' then PageBrowse
          else if page ss = ''create'' then
            (if logged_in ss then PageCreate else Warning ''Please log in to create a post'')
          else if page ss = ''view_post'' then PageViewPost
          else if page ss = ''my_posts'' then
            (if logged_in ss then PageMyPosts else Warning ''Please log in to view your posts'')
          else if page ss = ''edit_post'' then
            (if logged_in ss then PageEditPost else Warning ''Please log in to edit posts'')
          else if page ss = ''profile'' then
            (if logged_in ss then PageProfile else Warning ''Please log in to view your profile'')
          else if page ss = ''auth'' then PageAuth
          else NoPage))"

section \<open>Notions used in the properties\<close>

text \<open>The next \<open>n\<close> calls of \<^verbatim>\<open>execute()\<close> are let through by the network.\<close>

definition answered :: "nat \<Rightarrow> store \<Rightarrow> bool" where
  "answered n db = (\<forall>f \<in> set (take n (faults db)). f = None)"

text \<open>
  What the store holds for an identifier, read as the functions read it: from the first
  row that a select on the id returns.
\<close>

definition stored_views :: "store \<Rightarrow> ident \<Rightarrow> int option" where
  "stored_views db post_id =
     (case select_rows (\<lambda>p. p_id p = post_id) (posts db) of
        [] \<Rightarrow> None
      | p # _ \<Rightarrow> Some (p_views p))"

definition stored_hash :: "store \<Rightarrow> ident \<Rightarrow> string option" where
  "stored_hash db uid =
     (case select_rows (\<lambda>u. u_id u = uid) (users db) of
        [] \<Rightarrow> None
      | u # _ \<Rightarrow> Some (u_password u))"

text \<open>Concrete inputs: a store with nothing in it, a small populated store, a visitor.\<close>

definition empty_store :: store where
  "empty_store =
     \<lparr>users = [], posts = [], comments = [], likes = [], users_seq = 1, posts_seq = 1,
      comments_seq = 1, likes_seq = 1, clock = 0, faults = []\<rparr>"

definition toy_digest :: "string \<Rightarrow> string" where
  "toy_digest s = rev s"

definition demo_store :: store where
  "demo_store =
     \<lparr>users = [\<lparr>u_id = 1, u_username = ''bob'', u_email = ''bob@x.com'',
                 u_password = toy_digest ''hunter22'', u_bio = [], u_created_at = 0\<rparr>,
               \<lparr>u_id = 2, u_username = ''carol'', u_email = ''carol@x.com'',
                 u_password = toy_digest ''opensesame'', u_bio = [], u_created_at = 1\<rparr>],
      posts = [\<lparr>p_id = 1, p_user_id = 1, p_title = ''Hello'', p_content = ''First post'',
                 p_category = ''Technology'', p_views = 7, p_created_at = 2,
                 p_updated_at = 2\<rparr>,
               \<lparr>p_id = 2, p_user_id = 2, p_title = ''Tokyo'', p_content = ''Food guide'',
                 p_category = ''Food'', p_views = 0, p_created_at = 3, p_updated_at = 3\<rparr>],
      comments = [\<lparr>c_id = 1, c_post_id = 1, c_user_id = 2, c_content = ''Nice'',
                    c_parent_id = None, c_created_at = 4\<rparr>,
                  \<lparr>c_id = 2, c_post_id = 1, c_user_id = 1, c_content = ''Thanks'',
                    c_parent_id = Some 1, c_created_at = 5\<rparr>,
                  \<lparr>c_id = 3, c_post_id = 2, c_user_id = 1, c_content = ''Yum'',
                    c_parent_id = None, c_created_at = 6\<rparr>],
      likes = [\<lparr>l_id = 1, l_post_id = 1, l_user_id = 2, l_created_at = 7\<rparr>,
               \<lparr>l_id = 2, l_post_id = 1, l_user_id = 2, l_created_at = 8\<rparr>,
               \<lparr>l_id = 3, l_post_id = 1, l_user_id = 1, l_created_at = 9\<rparr>],
      users_seq = 3, posts_seq = 3, comments_seq = 4, likes_seq = 4, clock = 10,
      faults = []\<rparr>"

text \<open>
  Twenty-four posts as a select returns them, newest first, the even ones on travel, the
  odd ones on food.
\<close>

definition numbered_view :: "nat \<Rightarrow> post_view" where
  "numbered_view i =
     \<lparr>pv_id = i, pv_user_id = 1, pv_title = ''Post'', pv_content = ''Some text'',
      pv_category = (if even i then ''Travel'' else ''Food''), pv_views = 0,
      pv_created_at = i, pv_users = Some ''bob''\<rparr>"

definition many_posts :: "post_view list" where
  "many_posts = rev (map numbered_view [1..<25])"

text \<open>
  A stand-in for \<^verbatim>\<open>str.lower()\<close>: it lowers the letters A to Z, and on strings of ASCII
  characters that is what Python does.
\<close>

definition ascii_lower :: "string \<Rightarrow> string" where
  "ascii_lower s =
     map (\<lambda>c. let n = (of_char c :: nat)
               in if 65 \<le> n \<and> n \<le> 90 then char_of (n + 32) else c) s"

definition anonymous_at :: "string \<Rightarrow> session" where
  "anonymous_at p = initial_session\<lparr>page := p\<rparr>"

section \<open>Properties\<close>

subsection \<open>Calls that go through, calls that fail\<close>

lemma answered_next: "answered (Suc n) db \<Longrightarrow> next_fault db = None"
  by (cases "faults db") (auto simp: answered_def next_fault_def)

lemma answered_tl: "answered (Suc n) db \<Longrightarrow> answered n (db\<lparr>faults := tl (faults db)\<rparr>)"
  by (cases "faults db") (auto simp: answered_def)

lemma answered_add:
  "answered (i + j) db = (answered i db \<and> answered j (db\<lparr>faults := drop i (faults db)\<rparr>))"
  by (auto simp: answered_def take_add)

lemma next_fault_simps [simp]:
  "next_fault (db\<lparr>faults := Some e # fs\<rparr>) = Some e"
  "next_fault (db\<lparr>faults := None # fs\<rparr>) = None"
  "next_fault (db\<lparr>faults := []\<rparr>) = None"
  "next_fault (db\<lparr>clock := c\<rparr>) = next_fault db"
  by (simp_all add: next_fault_def)

lemmas body_defs =
  create_user_def create_user_body_def authenticate_user_def authenticate_user_body_def
  get_user_by_id_def get_user_by_id_body_def update_user_profile_def update_user_profile_body_def
  change_password_def change_password_body_def create_post_def create_post_body_def
  get_all_posts_def get_all_posts_body_def get_post_by_id_def get_post_by_id_body_def
  get_user_posts_def get_user_posts_body_def update_post_def update_post_body_def
  delete_post_def delete_post_body_def increment_view_count_def increment_view_count_body_def
  add_comment_def add_comment_body_def get_comments_def get_comments_body_def
  add_like_def add_like_body_def remove_like_def remove_like_body_def
  get_like_count_def get_like_count_body_def check_user_liked_def check_user_liked_body_def
  get_comment_count_def get_comment_count_body_def get_total_users_def get_total_users_body_def
  get_total_posts_def get_total_posts_body_def add_sample_data_def add_sample_data_body_def

lemmas query_defs =
  insert_users_def insert_posts_def insert_comment_def insert_like_def
  select_users_def update_users_def select_posts_def update_posts_def delete_posts_def
  select_comments_def delete_comments_def select_likes_def delete_likes_def

lemmas run_defs = try_except_def execute_def now_def hash_password_def Let_def

subsection \<open>Signing up, then logging in\<close>

lemma create_user_through:
  "next_fault db = None \<Longrightarrow> uname \<notin> set (map u_username (users db)) \<Longrightarrow>
   create_user sha256 uname mail pw bio db =
     (True, db\<lparr>users := users db @ [\<lparr>u_id = users_seq db, u_username = uname, u_email = mail,
                   u_password = sha256 pw, u_bio = bio, u_created_at = clock db\<rparr>],
                users_seq := Suc (users_seq db), clock := Suc (clock db),
                faults := tl (faults db)\<rparr>)"
  by (simp add: body_defs run_defs query_defs)

lemma authenticate_user_through:
  "next_fault db = None \<Longrightarrow>
   authenticate_user sha256 uname pw db =
     ((case filter (\<lambda>u. u_username u = uname \<and> u_password u = sha256 pw) (users db) of
         [] \<Rightarrow> None
       | u # _ \<Rightarrow> Some \<lparr>ui_id = u_id u, ui_username = u_username u, ui_email = u_email u\<rparr>),
      db\<lparr>faults := tl (faults db)\<rparr>)"
  by (simp add: body_defs run_defs query_defs select_rows_def split: list.splits)

lemma no_row_of_fresh_name:
  "uname \<notin> set (map u_username us) \<Longrightarrow> filter (\<lambda>u. u_username u = uname \<and> P u) us = []"
  by (induction us) auto

text \<open>
  Claim C2. A sign-up that passes the form's checks, with a username that no row of users
  has, on a store that answers the two calls: \<open>create_user\<close> returns true and
  \<open>authenticate_user\<close> with the same username and password then returns a user record,
  the one of the new row, whose username is the input's.
\<close>

theorem signup_then_login:
  assumes "signup_error uname mail pw pw = None"
      and "uname \<notin> set (map u_username (users db))"
      and "answered 2 db"
  shows "fst (create_user sha256 uname mail pw bio db) = True
       \<and> fst (authenticate_user sha256 uname pw (snd (create_user sha256 uname mail pw bio db)))
           = Some \<lparr>ui_id = users_seq db, ui_username = uname, ui_email = mail\<rparr>"
proof -
  let ?row = "\<lparr>u_id = users_seq db, u_username = uname, u_email = mail,
                u_password = sha256 pw, u_bio = bio, u_created_at = clock db\<rparr>"
  let ?db1 = "db\<lparr>users := users db @ [?row], users_seq := Suc (users_seq db),
                 clock := Suc (clock db), faults := tl (faults db)\<rparr>"
  from assms(3) have a: "answered (Suc (Suc 0)) db" by (simp add: numeral_2_eq_2)
  then have n1: "next_fault db = None" by (rule answered_next)
  have c: "create_user sha256 uname mail pw bio db = (True, ?db1)"
    by (rule create_user_through[OF n1 assms(2)])
  from a have "answered (Suc 0) (db\<lparr>faults := tl (faults db)\<rparr>)" by (rule answered_tl)
  then have "next_fault (db\<lparr>faults := tl (faults db)\<rparr>) = None" by (rule answered_next)
  then have n2: "next_fault ?db1 = None" by (simp add: next_fault_def)
  have "fst (authenticate_user sha256 uname pw ?db1)
          = Some \<lparr>ui_id = users_seq db, ui_username = uname, ui_email = mail\<rparr>"
    by (simp add: authenticate_user_through[OF n2] no_row_of_fresh_name[OF assms(2)])
  with c show ?thesis by simp
qed

theorem signup_then_login_witness:
  "signup_error ''alice'' ''alice@x.com'' ''secret1'' ''secret1'' = None
   \<and> ''alice'' \<notin> set (map u_username (users demo_store))
   \<and> answered 2 demo_store
   \<and> fst (create_user toy_digest ''alice'' ''alice@x.com'' ''secret1'' [] demo_store) = True
   \<and> fst (authenticate_user toy_digest ''alice'' ''secret1''
            (snd (create_user toy_digest ''alice'' ''alice@x.com'' ''secret1'' [] demo_store)))
       = Some \<lparr>ui_id = 3, ui_username = ''alice'', ui_email = ''alice@x.com''\<rparr>"
proof -
  have h1: "signup_error ''alice'' ''alice@x.com'' ''secret1'' ''secret1'' = None"
    by (simp add: signup_error_def)
  have h2: "''alice'' \<notin> set (map u_username (users demo_store))"
    by (simp add: demo_store_def)
  have h3: "answered 2 demo_store"
    by (simp add: answered_def demo_store_def)
  have "users_seq demo_store = 3" by (simp add: demo_store_def)
  with signup_then_login[OF h1 h2 h3, of toy_digest "[]"] h1 h2 h3 show ?thesis by simp
qed

subsection \<open>The guard of the main function\<close>

text \<open>
  Claim C1, as stated, fails: a visitor who is not logged in and asks for the page
  \<open>view_post\<close>, which is not one of the four pages that need a login, is sent to the
  home page all the same. The guard lets through the pages of its list
  \<^verbatim>\<open>['home', 'browse', 'auth']\<close> and nothing else.
\<close>

theorem main_redirects_view_post:
  "\<not> logged_in (anonymous_at ''view_post'')
   \<and> ''view_post'' \<notin> set [''create'', ''edit_post'', ''my_posts'', ''profile'']
   \<and> main (anonymous_at ''view_post'') = (anonymous_at ''home'', PageHome)"
  by (simp add: main_def anonymous_at_def initial_session_def)

text \<open>
  Claim C1, amended. For a visitor who is not logged in: the pages home, browse and auth
  are run as they are, the session unchanged; the pages create, edit_post, my_posts and
  profile are replaced by home, and the home page is run; and so is every name that is
  none of the eight pages of the application.
\<close>

theorem main_guard_not_logged_in:
  assumes "\<not> logged_in ss"
  shows "(page ss \<in> set [''home'', ''browse'', ''auth''] \<longrightarrow>
           main ss = (ss, if page ss = ''home'' then PageHome
                          else if page ss = ''browse'' then PageBrowse else PageAuth))
       \<and> (page ss \<in> set [''create'', ''edit_post'', ''my_posts'', ''profile''] \<longrightarrow>
           main ss = (ss\<lparr>page := ''home''\<rparr>, PageHome))
       \<and> (page ss \<notin> set [''home'', ''browse'', ''auth'', ''create'', ''edit_post'',
                           ''my_posts'', ''profile'', ''view_post''] \<longrightarrow>
           main ss = (ss\<lparr>page := ''home''\<rparr>, PageHome))"
  using assms by (auto simp: main_def Let_def)

theorem main_guard_not_logged_in_witness:
  "\<not> logged_in (anonymous_at ''browse'')
   \<and> main (anonymous_at ''browse'') = (anonymous_at ''browse'', PageBrowse)
   \<and> \<not> logged_in (anonymous_at ''auth'')
   \<and> main (anonymous_at ''auth'') = (anonymous_at ''auth'', PageAuth)
   \<and> \<not> logged_in (anonymous_at ''profile'')
   \<and> main (anonymous_at ''profile'') = (anonymous_at ''home'', PageHome)
   \<and> \<not> logged_in (anonymous_at ''edit_post'')
   \<and> main (anonymous_at ''edit_post'') = (anonymous_at ''home'', PageHome)
   \<and> \<not> logged_in (anonymous_at ''settings'')
   \<and> main (anonymous_at ''settings'') = (anonymous_at ''home'', PageHome)"
proof -
  have h: "\<not> logged_in (anonymous_at p)" for p
    by (simp add: anonymous_at_def initial_session_def)
  have u: "(anonymous_at p)\<lparr>page := ''home''\<rparr> = anonymous_at ''home''" for p
    by (simp add: anonymous_at_def)
  have p: "page (anonymous_at p) = p" for p
    by (simp add: anonymous_at_def)
  show ?thesis
    using main_guard_not_logged_in[OF h, of "''browse''"]
          main_guard_not_logged_in[OF h, of "''auth''"]
          main_guard_not_logged_in[OF h, of "''profile''"]
          main_guard_not_logged_in[OF h, of "''edit_post''"]
          main_guard_not_logged_in[OF h, of "''settings''"]
    by (simp add: h u p)
qed

subsection \<open>Counting views\<close>

lemma answered_two:
  "answered 2 db \<Longrightarrow>
   next_fault db = None \<and> next_fault (db\<lparr>faults := tl (faults db)\<rparr>) = None"
  by (cases "faults db"; cases "tl (faults db)")
     (auto simp: answered_def next_fault_def numeral_2_eq_2)

lemma answered_three:
  "answered 3 db \<Longrightarrow>
   next_fault db = None \<and> next_fault (db\<lparr>faults := tl (faults db)\<rparr>) = None
   \<and> next_fault (db\<lparr>faults := tl (tl (faults db))\<rparr>) = None"
  by (cases "faults db"; cases "tl (faults db)"; cases "tl (tl (faults db))")
     (auto simp: answered_def next_fault_def numeral_3_eq_3)

lemma select_rows_update_rows:
  "select_rows P (update_rows P patch rows) = map patch (select_rows P rows)"
  if "\<And>r. P (patch r) = P r"
  using that by (induction rows) (auto simp: select_rows_def update_rows_def)

lemma stored_views_update:
  "stored_views db pid = Some v \<Longrightarrow>
   stored_views (db\<lparr>posts := update_rows (\<lambda>p. p_id p = pid) (\<lambda>p. p\<lparr>p_views := w\<rparr>)
                              (posts db)\<rparr>) pid = Some w"
  by (simp add: stored_views_def select_rows_update_rows split: list.splits)

lemma stored_views_faults [simp]: "stored_views (db\<lparr>faults := fs\<rparr>) pid = stored_views db pid"
  by (simp add: stored_views_def)

text \<open>One call: the count read from the first row, plus one, goes to the rows of the id.\<close>

lemma increment_view_count_step:
  assumes "answered 2 db" and "stored_views db pid = Some v"
  shows "snd (increment_view_count pid db) =
           db\<lparr>posts := update_rows (\<lambda>p. p_id p = pid) (\<lambda>p. p\<lparr>p_views := v + 1\<rparr>) (posts db),
              faults := drop 2 (faults db)\<rparr>"
proof -
  from answered_two[OF assms(1)] have n: "next_fault db = None"
    "next_fault (db\<lparr>faults := tl (faults db)\<rparr>) = None" by simp_all
  have d: "tl (tl (faults db)) = drop 2 (faults db)"
    by (simp add: numeral_2_eq_2 drop_Suc)
  from assms(2) n show ?thesis
    by (auto simp: body_defs run_defs query_defs stored_views_def d split: list.splits)
qed

text \<open>
  Claim C3. A post is in the store with \<open>v\<close> views, and the store answers the two calls
  of each of \<open>N\<close> runs of \<open>increment_view_count\<close>, one after the other with nothing in
  between: the store then holds \<open>v + N\<close> views for the post.
\<close>

theorem increment_view_count_n_times:
  assumes "stored_views db pid = Some v" and "answered (2 * N) db"
  shows "stored_views (((\<lambda>d. snd (increment_view_count pid d)) ^^ N) db) pid = Some (v + int N)"
  using assms
proof (induction N arbitrary: db v)
  case 0
  then show ?case by simp
next
  case (Suc N)
  let ?db1 = "snd (increment_view_count pid db)"
  have "2 * Suc N = 2 + 2 * N" by simp
  with Suc.prems(2) have "answered (2 + 2 * N) db" by metis
  then have a2: "answered 2 db"
    and aN: "answered (2 * N) (db\<lparr>faults := drop 2 (faults db)\<rparr>)"
    unfolding answered_add by blast+
  note step = increment_view_count_step[OF a2 Suc.prems(1)]
  have v1: "stored_views ?db1 pid = Some (v + 1)"
    by (simp add: step stored_views_update[OF Suc.prems(1)])
  have "answered (2 * N) ?db1"
    using aN by (simp add: step answered_def)
  from Suc.IH[OF v1 this] show ?case
    by (simp add: funpow_Suc_right add.assoc del: funpow.simps)
qed

theorem increment_view_count_n_times_witness:
  "stored_views demo_store 1 = Some 7
   \<and> answered (2 * 3) demo_store
   \<and> stored_views (((\<lambda>d. snd (increment_view_count 1 d)) ^^ 3) demo_store) 1 = Some 10"
proof -
  have h1: "stored_views demo_store 1 = Some 7"
    by (simp add: stored_views_def demo_store_def select_rows_def)
  have h2: "answered (2 * 3) demo_store"
    by (simp add: answered_def demo_store_def)
  from increment_view_count_n_times[OF h1 h2] h1 h2 show ?thesis by simp
qed

subsection \<open>Deleting a post\<close>

lemma delete_post_True:
  assumes "delete_post pid db = (True, db')"
  shows "comments db' = delete_rows (\<lambda>c. c_post_id c = pid) (comments db)
       \<and> likes db' = delete_rows (\<lambda>l. l_post_id l = pid) (likes db)
       \<and> posts db' = delete_rows (\<lambda>p. p_id p = pid) (posts db)"
  using assms
  by (auto simp: body_defs run_defs query_defs split: option.splits)

lemma delete_post_through: "answered 3 db \<Longrightarrow> fst (delete_post pid db) = True"
  by (cases "faults db"; cases "tl (faults db)"; cases "tl (tl (faults db))")
     (auto simp: body_defs run_defs query_defs answered_def next_fault_def numeral_3_eq_3)

lemma get_comments_empty:
  "\<forall>c \<in> set (comments db). c_post_id c \<noteq> pid \<Longrightarrow> fst (get_comments pid db) = []"
  by (simp add: get_comments_def get_comments_body_def order_by_def try_except_def)

lemma get_like_count_zero:
  "\<forall>l \<in> set (likes db). l_post_id l \<noteq> pid \<Longrightarrow> fst (get_like_count pid db) = 0"
  by (auto simp: body_defs run_defs query_defs select_rows_def filter_empty_conv
      split: option.splits)

text \<open>
  Claim C4. When \<open>delete_post\<close> returns true, the store it leaves has no comment and no
  like of the post, \<open>get_comments\<close> returns the empty list for it and
  \<open>get_like_count\<close> returns zero.
\<close>

theorem delete_post_cascades:
  assumes "delete_post pid db = (True, db')"
  shows "(\<forall>c \<in> set (comments db'). c_post_id c \<noteq> pid)
       \<and> (\<forall>l \<in> set (likes db'). l_post_id l \<noteq> pid)
       \<and> fst (get_comments pid db') = []
       \<and> fst (get_like_count pid db') = 0"
proof -
  from delete_post_True[OF assms]
  have c: "\<forall>c \<in> set (comments db'). c_post_id c \<noteq> pid"
    and l: "\<forall>l \<in> set (likes db'). l_post_id l \<noteq> pid"
    by (simp_all add: delete_rows_def)
  from c l get_comments_empty[OF c] get_like_count_zero[OF l] show ?thesis by blast
qed

theorem delete_post_cascades_witness:
  "delete_post 1 demo_store = (True, snd (delete_post 1 demo_store))
   \<and> length (comments demo_store) = 3
   \<and> length (comments (snd (delete_post 1 demo_store))) = 1
   \<and> likes (snd (delete_post 1 demo_store)) = []
   \<and> fst (get_comments 1 (snd (delete_post 1 demo_store))) = []
   \<and> fst (get_like_count 1 (snd (delete_post 1 demo_store))) = 0"
proof -
  have "answered 3 demo_store" by (simp add: answered_def demo_store_def)
  then have "fst (delete_post 1 demo_store) = True" by (rule delete_post_through)
  then have h: "delete_post 1 demo_store = (True, snd (delete_post 1 demo_store))"
    by (metis prod.collapse)
  from delete_post_True[OF h]
  have "length (comments (snd (delete_post 1 demo_store))) = 1"
    and "likes (snd (delete_post 1 demo_store)) = []"
    by (simp_all add: delete_rows_def demo_store_def)
  moreover have "length (comments demo_store) = 3" by (simp add: demo_store_def)
  ultimately show ?thesis using delete_post_cascades[OF h] h by simp
qed

subsection \<open>Counting comments\<close>

text \<open>
  Claim C5. When the store answers, \<open>get_comment_count\<close> returns the number of comments
  of the post whose \<open>parent_id\<close> is null; and a reply added to the table, to whatever
  post, leaves the returned count as it was.
\<close>

theorem get_comment_count_roots_only:
  "(next_fault db = None \<longrightarrow>
      fst (get_comment_count pid db)
        = length (filter (\<lambda>c. c_post_id c = pid \<and> c_parent_id c = None) (comments db)))
   \<and> (c_parent_id reply \<noteq> None \<longrightarrow>
      fst (get_comment_count pid (db\<lparr>comments := comments db @ [reply]\<rparr>))
        = fst (get_comment_count pid db))"
  by (auto simp: body_defs run_defs query_defs select_rows_def next_fault_def
      split: option.splits)

theorem get_comment_count_roots_only_witness:
  "next_fault demo_store = None
   \<and> length (filter (\<lambda>c. c_post_id c = 1) (comments demo_store)) = 2
   \<and> fst (get_comment_count 1 demo_store) = 1
   \<and> c_parent_id \<lparr>c_id = 4, c_post_id = 1, c_user_id = 2, c_content = ''Again'',
                    c_parent_id = Some 1, c_created_at = 10\<rparr> \<noteq> None
   \<and> fst (get_comment_count 1
        (demo_store\<lparr>comments := comments demo_store @
           [\<lparr>c_id = 4, c_post_id = 1, c_user_id = 2, c_content = ''Again'',
             c_parent_id = Some 1, c_created_at = 10\<rparr>]\<rparr>)) = 1"
proof -
  have h1: "next_fault demo_store = None"
    by (simp add: next_fault_def demo_store_def)
  have h2: "c_parent_id \<lparr>c_id = 4, c_post_id = 1, c_user_id = 2, c_content = ''Again'',
                    c_parent_id = Some 1, c_created_at = 10\<rparr> \<noteq> None"
    by simp
  have c: "length (filter (\<lambda>c. c_post_id c = 1 \<and> c_parent_id c = None) (comments demo_store)) = 1"
    by (simp add: demo_store_def)
  have a: "length (filter (\<lambda>c. c_post_id c = 1) (comments demo_store)) = 2"
    by (simp add: demo_store_def)
  from get_comment_count_roots_only[of demo_store 1
         "\<lparr>c_id = 4, c_post_id = 1, c_user_id = 2, c_content = ''Again'',
           c_parent_id = Some 1, c_created_at = 10\<rparr>"] h1 h2 c a
  show ?thesis by simp
qed

subsection \<open>Changing the password\<close>

lemma stored_hash_faults [simp]: "stored_hash (db\<lparr>faults := fs\<rparr>) uid = stored_hash db uid"
  by (simp add: stored_hash_def)

text \<open>The unused first call leaves the tables alone, whether it is answered or not.\<close>

lemma get_user_by_id_faults:
  "snd (get_user_by_id uid db) = db\<lparr>faults := tl (faults db)\<rparr>"
  by (auto simp: body_defs run_defs query_defs split: option.splits list.splits)

lemmas change_password_defs =
  change_password_def change_password_body_def case_prod_beta get_user_by_id_faults

lemma change_password_True:
  assumes "fst (change_password sha256 uid old new db) = True"
  shows "stored_hash db uid = Some (hash_password sha256 old)
       \<and> stored_hash (snd (change_password sha256 uid old new db)) uid
           = Some (hash_password sha256 new)"
  using assms
  by (auto simp: change_password_defs run_defs query_defs stored_hash_def
        select_rows_update_rows split: option.splits list.splits if_splits)

lemma change_password_wrong:
  assumes "stored_hash db uid \<noteq> Some (hash_password sha256 old)"
  shows "fst (change_password sha256 uid old new db) = False
       \<and> users (snd (change_password sha256 uid old new db)) = users db"
  using assms
  by (auto simp: change_password_defs run_defs query_defs stored_hash_def
        split: option.splits list.splits if_splits)

lemma change_password_right:
  assumes "stored_hash db uid = Some (hash_password sha256 old)" and "answered 3 db"
  shows "fst (change_password sha256 uid old new db) = True"
  using assms(1) answered_three[OF assms(2)]
  by (auto simp: change_password_defs run_defs query_defs stored_hash_def
        split: option.splits list.splits if_splits)

text \<open>
  Claim C7. \<open>change_password\<close> returns true only when the hash it reads from the store
  is the hash of the old password it was given, and then the store holds the hash of the
  new password; when the stored hash is another one (or there is no such user) it returns
  false and leaves the table of users as it was. When the hashes agree and the store
  answers the three calls, it does return true.
\<close>

theorem change_password_checks_old_hash:
  "(fst (change_password sha256 uid old new db) = True \<longrightarrow>
      stored_hash db uid = Some (hash_password sha256 old)
      \<and> stored_hash (snd (change_password sha256 uid old new db)) uid
          = Some (hash_password sha256 new))
   \<and> (stored_hash db uid \<noteq> Some (hash_password sha256 old) \<longrightarrow>
      fst (change_password sha256 uid old new db) = False
      \<and> users (snd (change_password sha256 uid old new db)) = users db)
   \<and> (stored_hash db uid = Some (hash_password sha256 old) \<and> answered 3 db \<longrightarrow>
      fst (change_password sha256 uid old new db) = True)"
  using change_password_True change_password_wrong change_password_right by blast

theorem change_password_checks_old_hash_witness:
  "stored_hash demo_store 1 = Some (hash_password toy_digest ''hunter22'')
   \<and> answered 3 demo_store
   \<and> fst (change_password toy_digest 1 ''hunter22'' ''letmein1'' demo_store) = True
   \<and> stored_hash (snd (change_password toy_digest 1 ''hunter22'' ''letmein1'' demo_store)) 1
       = Some (hash_password toy_digest ''letmein1'')
   \<and> stored_hash demo_store 1 \<noteq> Some (hash_password toy_digest ''wrong'')
   \<and> fst (change_password toy_digest 1 ''wrong'' ''letmein1'' demo_store) = False
   \<and> users (snd (change_password toy_digest 1 ''wrong'' ''letmein1'' demo_store))
       = users demo_store"
proof -
  have h1: "stored_hash demo_store 1 = Some (hash_password toy_digest ''hunter22'')"
    by (simp add: stored_hash_def demo_store_def select_rows_def hash_password_def)
  have h2: "answered 3 demo_store"
    by (simp add: answered_def demo_store_def)
  have h3: "stored_hash demo_store 1 \<noteq> Some (hash_password toy_digest ''wrong'')"
    by (simp add: stored_hash_def demo_store_def select_rows_def hash_password_def
        toy_digest_def)
  from change_password_checks_old_hash[of toy_digest 1 "''hunter22''" "''letmein1''" demo_store]
       change_password_checks_old_hash[of toy_digest 1 "''wrong''" "''letmein1''" demo_store]
       h1 h2 h3
  show ?thesis by blast
qed

subsection \<open>Likes\<close>

lemma add_like_through:
  "next_fault db = None \<Longrightarrow>
   add_like pid uid db =
     (True, db\<lparr>likes := likes db @ [\<lparr>l_id = likes_seq db, l_post_id = pid, l_user_id = uid,
                                      l_created_at = clock db\<rparr>],
                likes_seq := Suc (likes_seq db), clock := Suc (clock db),
                faults := tl (faults db)\<rparr>)"
  by (simp add: body_defs run_defs query_defs)

lemma get_like_count_through:
  "next_fault db = None \<Longrightarrow>
   get_like_count pid db =
     (length (filter (\<lambda>l. l_post_id l = pid) (likes db)), db\<lparr>faults := tl (faults db)\<rparr>)"
  by (simp add: body_defs run_defs query_defs select_rows_def)

text \<open>
  Claim C8. On a store that answers, two calls of \<open>add_like\<close> for the same post and the
  same user both return true and add two rows with different ids to the table of likes;
  \<open>get_like_count\<close> then returns two more than the post had likes before: 2 for a post
  that had none. Nothing checks the pair of post and user.
\<close>

theorem add_like_twice_counts_twice:
  assumes "answered 3 db"
      and "length (filter (\<lambda>l. l_post_id l = pid) (likes db)) = n"
  shows "fst (add_like pid uid db) = True
       \<and> fst (add_like pid uid (snd (add_like pid uid db))) = True
       \<and> (\<exists>r1 r2. likes (snd (add_like pid uid (snd (add_like pid uid db)))) = likes db @ [r1, r2]
             \<and> l_id r1 \<noteq> l_id r2
             \<and> l_post_id r1 = pid \<and> l_user_id r1 = uid
             \<and> l_post_id r2 = pid \<and> l_user_id r2 = uid)
       \<and> fst (get_like_count pid (snd (add_like pid uid (snd (add_like pid uid db))))) = n + 2"
proof -
  from answered_three[OF assms(1)] have n: "next_fault db = None"
     "next_fault (db\<lparr>faults := tl (faults db)\<rparr>) = None"
     "next_fault (db\<lparr>faults := tl (tl (faults db))\<rparr>) = None"
    by simp_all
  let ?r1 = "\<lparr>l_id = likes_seq db, l_post_id = pid, l_user_id = uid, l_created_at = clock db\<rparr>"
  let ?db1 = "db\<lparr>likes := likes db @ [?r1], likes_seq := Suc (likes_seq db),
                 clock := Suc (clock db), faults := tl (faults db)\<rparr>"
  let ?r2 = "\<lparr>l_id = Suc (likes_seq db), l_post_id = pid, l_user_id = uid,
               l_created_at = Suc (clock db)\<rparr>"
  let ?db2 = "db\<lparr>likes := likes db @ [?r1, ?r2], likes_seq := Suc (Suc (likes_seq db)),
                 clock := Suc (Suc (clock db)), faults := tl (tl (faults db))\<rparr>"
  have a1: "add_like pid uid db = (True, ?db1)"
    by (rule add_like_through[OF n(1)])
  have "next_fault ?db1 = None" using n(2) by (simp add: next_fault_def)
  from add_like_through[OF this, of pid uid]
  have a2: "add_like pid uid ?db1 = (True, ?db2)" by simp
  have "next_fault ?db2 = None" using n(3) by (simp add: next_fault_def)
  from get_like_count_through[OF this, of pid] assms(2)
  have a3: "fst (get_like_count pid ?db2) = n + 2" by simp
  have "\<exists>r1 r2. likes ?db2 = likes db @ [r1, r2] \<and> l_id r1 \<noteq> l_id r2
             \<and> l_post_id r1 = pid \<and> l_user_id r1 = uid
             \<and> l_post_id r2 = pid \<and> l_user_id r2 = uid"
    by (rule exI[of _ ?r1], rule exI[of _ ?r2]) simp
  with a1 a2 a3 show ?thesis by simp
qed

theorem add_like_twice_counts_twice_witness:
  "answered 3 demo_store
   \<and> length (filter (\<lambda>l. l_post_id l = 2) (likes demo_store)) = 0
   \<and> fst (add_like 2 1 demo_store) = True
   \<and> fst (add_like 2 1 (snd (add_like 2 1 demo_store))) = True
   \<and> fst (get_like_count 2 (snd (add_like 2 1 (snd (add_like 2 1 demo_store))))) = 2"
proof -
  have h1: "answered 3 demo_store"
    by (simp add: answered_def demo_store_def)
  have h2: "length (filter (\<lambda>l. l_post_id l = 2) (likes demo_store)) = 0"
    by (simp add: demo_store_def)
  from add_like_twice_counts_twice[OF h1 h2, of 1] h1 h2 show ?thesis by simp
qed

lemma remove_like_True:
  assumes "remove_like pid uid db = (True, db')"
  shows "likes db' = delete_rows (\<lambda>l. l_post_id l = pid \<and> l_user_id l = uid) (likes db)"
  using assms by (auto simp: body_defs run_defs query_defs split: option.splits)

lemma remove_like_through: "next_fault db = None \<Longrightarrow> fst (remove_like pid uid db) = True"
  by (simp add: body_defs run_defs query_defs)

lemma check_user_liked_none:
  "\<forall>l \<in> set (likes db). \<not> (l_post_id l = pid \<and> l_user_id l = uid) \<Longrightarrow>
   fst (check_user_liked pid uid db) = False"
  by (auto simp: body_defs run_defs query_defs select_rows_def filter_empty_conv
      split: option.splits)

text \<open>
  Claim C10. When \<open>remove_like\<close> returns true, every row of likes with the post and the
  user is gone, however many there were, and no other row is; \<open>check_user_liked\<close> then
  returns false, and \<open>get_like_count\<close>, when the store answers it, returns the number of
  likes that the other users gave the post.
\<close>

theorem remove_like_removes_every_row:
  assumes "remove_like pid uid db = (True, db')"
  shows "likes db' = filter (\<lambda>l. \<not> (l_post_id l = pid \<and> l_user_id l = uid)) (likes db)
       \<and> (\<forall>l \<in> set (likes db'). \<not> (l_post_id l = pid \<and> l_user_id l = uid))
       \<and> fst (check_user_liked pid uid db') = False
       \<and> (next_fault db' = None \<longrightarrow>
            fst (get_like_count pid db')
              = length (filter (\<lambda>l. l_post_id l = pid \<and> l_user_id l \<noteq> uid) (likes db)))"
proof -
  from remove_like_True[OF assms]
  have l: "likes db' = filter (\<lambda>l. \<not> (l_post_id l = pid \<and> l_user_id l = uid)) (likes db)"
    by (simp add: delete_rows_def)
  then have none: "\<forall>l \<in> set (likes db'). \<not> (l_post_id l = pid \<and> l_user_id l = uid)"
    by simp
  have "filter (\<lambda>l. l_post_id l = pid) (likes db')
          = filter (\<lambda>l. l_post_id l = pid \<and> l_user_id l \<noteq> uid) (likes db)"
    unfolding l filter_filter by (rule filter_cong) auto
  then have "next_fault db' = None \<longrightarrow>
            fst (get_like_count pid db')
              = length (filter (\<lambda>l. l_post_id l = pid \<and> l_user_id l \<noteq> uid) (likes db))"
    by (simp add: get_like_count_through)
  with l none check_user_liked_none[OF none] show ?thesis by blast
qed

lemma remove_like_result:
  "next_fault db = None \<Longrightarrow>
   remove_like pid uid db =
     (True, db\<lparr>likes := delete_rows (\<lambda>l. l_post_id l = pid \<and> l_user_id l = uid) (likes db),
                faults := tl (faults db)\<rparr>)"
  by (simp add: body_defs run_defs query_defs)

theorem remove_like_removes_every_row_witness:
  "remove_like 1 2 demo_store = (True, snd (remove_like 1 2 demo_store))
   \<and> length (filter (\<lambda>l. l_post_id l = 1 \<and> l_user_id l = 2) (likes demo_store)) = 2
   \<and> likes (snd (remove_like 1 2 demo_store))
       = [\<lparr>l_id = 3, l_post_id = 1, l_user_id = 1, l_created_at = 9\<rparr>]
   \<and> fst (check_user_liked 1 2 (snd (remove_like 1 2 demo_store))) = False
   \<and> next_fault (snd (remove_like 1 2 demo_store)) = None
   \<and> fst (get_like_count 1 (snd (remove_like 1 2 demo_store))) = 1"
proof -
  let ?db' = "demo_store\<lparr>likes := delete_rows (\<lambda>l. l_post_id l = 1 \<and> l_user_id l = 2)
                                      (likes demo_store),
                          faults := tl (faults demo_store)\<rparr>"
  have n: "next_fault demo_store = None"
    by (simp add: next_fault_def demo_store_def)
  have h: "remove_like 1 2 demo_store = (True, ?db')"
    by (rule remove_like_result[OF n])
  have n': "next_fault ?db' = None"
    by (simp add: next_fault_def demo_store_def)
  have d: "length (filter (\<lambda>l. l_post_id l = 1 \<and> l_user_id l = 2) (likes demo_store)) = 2"
    by (simp add: demo_store_def)
  have f: "filter (\<lambda>l. \<not> (l_post_id l = 1 \<and> l_user_id l = 2)) (likes demo_store)
             = [\<lparr>l_id = 3, l_post_id = 1, l_user_id = 1, l_created_at = 9\<rparr>]"
    by (simp add: demo_store_def)
  have g: "length (filter (\<lambda>l. l_post_id l = 1 \<and> l_user_id l \<noteq> 2) (likes demo_store)) = 1"
    by (simp add: demo_store_def)
  from remove_like_removes_every_row[OF h] n'
  have "likes ?db' = [\<lparr>l_id = 3, l_post_id = 1, l_user_id = 1, l_created_at = 9\<rparr>]"
    and "fst (check_user_liked 1 2 ?db') = False"
    and "fst (get_like_count 1 ?db') = 1"
    unfolding f g by blast+
  with n' d show ?thesis unfolding h snd_conv by blast
qed

subsection \<open>The home page\<close>

lemma get_all_posts_never_asks: "get_all_posts db = ([], db)"
  by (simp add: get_all_posts_def get_all_posts_body_def order_by_def try_except_def)

lemma get_user_posts_never_asks: "get_user_posts uid db = ([], db)"
  by (simp add: get_user_posts_def get_user_posts_body_def order_by_def try_except_def)

lemma get_comments_never_asks: "get_comments pid db = ([], db)"
  by (simp add: get_comments_def get_comments_body_def order_by_def try_except_def)

lemma home_cards_ids:
  "prefix (map hc_post_id (fst (fst (home_cards pressed ps ss db)))) (map pv_id ps)"
  by (induction ps arbitrary: ss db) (simp_all add: Let_def case_prod_beta)

lemma home_cards_ids_all:
  "map hc_post_id (fst (fst (home_cards None ps ss db))) = map pv_id ps"
  by (induction ps arbitrary: ss db) (simp_all add: Let_def case_prod_beta)

lemma home_page_of_cards:
  "hp_cards (fst (home_page_of str_lower search category pressed ss all_posts db1)) =
     fst (fst (home_cards pressed (take 10 (home_filter str_lower search category all_posts))
                 ss db1))"
  by (simp add: home_page_of_def Let_def case_prod_beta)

lemma page_home_of_get_all_posts:
  "page_home str_lower search category pressed ss db =
     home_page_of str_lower search category pressed ss
       (fst (get_all_posts db)) (snd (get_all_posts db))"
  by (simp add: page_home_def case_prod_beta)

text \<open>
  Claim C9. The home page shows at most ten cards, for every store. Whatever list
  \<open>get_all_posts\<close> has returned, the posts shown are taken, in order, from the first
  ten of the list that the search and the category filter leave of it, however many
  match; when no title button is pressed in the run, they are exactly those first ten.
  (In the source as it stands \<open>get_all_posts\<close> returns the empty list for every store,
  so that the page shows its message and no card.)
\<close>

theorem page_home_shows_first_ten:
  "page_home str_lower search category pressed ss db
     = home_page_of str_lower search category pressed ss
         (fst (get_all_posts db)) (snd (get_all_posts db))
   \<and> length (hp_cards (fst (home_page_of str_lower search category pressed ss all_posts db1)))
       \<le> 10
   \<and> prefix (map hc_post_id
               (hp_cards (fst (home_page_of str_lower search category pressed ss all_posts db1))))
        (map pv_id (take 10 (home_filter str_lower search category all_posts)))
   \<and> (pressed = None \<longrightarrow>
        map hc_post_id
          (hp_cards (fst (home_page_of str_lower search category pressed ss all_posts db1)))
          = map pv_id (take 10 (home_filter str_lower search category all_posts)))
   \<and> length (hp_cards (fst (page_home str_lower search category pressed ss db))) \<le> 10"
proof -
  let ?shown = "take 10 (home_filter str_lower search category all_posts)"
  let ?cards = "hp_cards (fst (home_page_of str_lower search category pressed ss all_posts db1))"
  have p: "prefix (map hc_post_id ?cards) (map pv_id ?shown)"
    unfolding home_page_of_cards by (rule home_cards_ids)
  then have "length (map hc_post_id ?cards) \<le> length (map pv_id ?shown)"
    by (rule prefix_length_le)
  then have l: "length ?cards \<le> 10" by simp
  have e: "pressed = None \<longrightarrow> map hc_post_id ?cards = map pv_id ?shown"
    unfolding home_page_of_cards by (auto simp: home_cards_ids_all)
  have "prefix (map hc_post_id (hp_cards (fst (page_home str_lower search category pressed ss db))))
          (map pv_id (take 10 (home_filter str_lower search category (fst (get_all_posts db)))))"
    unfolding page_home_of_get_all_posts home_page_of_cards by (rule home_cards_ids)
  then have "length (map hc_post_id (hp_cards (fst (page_home str_lower search category pressed ss db))))
          \<le> length (map pv_id (take 10 (home_filter str_lower search category (fst (get_all_posts db)))))"
    by (rule prefix_length_le)
  then have l2: "length (hp_cards (fst (page_home str_lower search category pressed ss db))) \<le> 10"
    by simp
  from p l e l2 page_home_of_get_all_posts show ?thesis by blast
qed

theorem page_home_shows_first_ten_witness:
  "length (home_filter ascii_lower ''OS'' ''Travel'' many_posts) = 12
   \<and> length (hp_cards (fst (home_page_of ascii_lower ''OS'' ''Travel'' None initial_session
                               many_posts demo_store))) = 10
   \<and> map hc_post_id (hp_cards (fst (home_page_of ascii_lower ''OS'' ''Travel'' None
                                      initial_session many_posts demo_store)))
       = [24, 22, 20, 18, 16, 14, 12, 10, 8, 6]
   \<and> hp_cards (fst (page_home ascii_lower ''OS'' ''Travel'' None initial_session demo_store))
       = []"
proof -
  have found: "length (home_filter ascii_lower ''OS'' ''Travel'' many_posts) = 12"
    by code_simp
  have first: "map pv_id (take 10 (home_filter ascii_lower ''OS'' ''Travel'' many_posts))
                 = [24, 22, 20, 18, 16, 14, 12, 10, 8, 6]"
    by code_simp
  note t = page_home_shows_first_ten[of ascii_lower "''OS''" "''Travel''" None initial_session
             demo_store many_posts demo_store]
  from t have ids: "map hc_post_id (hp_cards (fst (home_page_of ascii_lower ''OS'' ''Travel'' None
                                      initial_session many_posts demo_store)))
               = [24, 22, 20, 18, 16, 14, 12, 10, 8, 6]"
    unfolding first by blast
  then have "length (map hc_post_id (hp_cards (fst (home_page_of ascii_lower ''OS'' ''Travel'' None
                                      initial_session many_posts demo_store)))) = 10"
    by simp
  then have len: "length (hp_cards (fst (home_page_of ascii_lower ''OS'' ''Travel'' None
                                      initial_session many_posts demo_store))) = 10"
    by simp
  from t have "page_home ascii_lower ''OS'' ''Travel'' None initial_session demo_store
     = home_page_of ascii_lower ''OS'' ''Travel'' None initial_session
         (fst (get_all_posts demo_store)) (snd (get_all_posts demo_store))"
    by blast
  then have none: "hp_cards (fst (page_home ascii_lower ''OS'' ''Travel'' None initial_session demo_store)) = []"
    by (simp add: get_all_posts_never_asks home_page_of_def home_filter_def)
  from found len ids none show ?thesis by blast
qed

subsection \<open>Failures of the store\<close>

lemma create_user_fails:
  "create_user sha256 uname mail pw bio (db\<lparr>faults := Some e # fs\<rparr>)
     = (False, db\<lparr>clock := Suc (clock db), faults := fs\<rparr>)"
  by (simp add: body_defs run_defs query_defs)

lemma create_user_taken:
  "uname \<in> set (map u_username (users db)) \<Longrightarrow>
   create_user sha256 uname mail pw bio (db\<lparr>faults := None # fs\<rparr>)
     = (False, db\<lparr>clock := Suc (clock db), faults := fs\<rparr>)"
  by (simp add: body_defs run_defs query_defs)

lemma authenticate_user_fails:
  "authenticate_user sha256 uname pw (db\<lparr>faults := Some e # fs\<rparr>) = (None, db\<lparr>faults := fs\<rparr>)"
  by (simp add: body_defs run_defs query_defs)

lemma get_user_by_id_fails:
  "get_user_by_id uid (db\<lparr>faults := Some e # fs\<rparr>) = (None, db\<lparr>faults := fs\<rparr>)"
  by (simp add: body_defs run_defs query_defs)

lemma update_user_profile_fails:
  "update_user_profile uid mail bio (db\<lparr>faults := Some e # fs\<rparr>) = (False, db\<lparr>faults := fs\<rparr>)"
  by (simp add: body_defs run_defs query_defs)

lemma change_password_fails_select:
  "change_password sha256 uid old new (db\<lparr>faults := f # Some e # fs\<rparr>)
     = (False, db\<lparr>faults := fs\<rparr>)"
  by (simp add: change_password_defs run_defs query_defs)

lemma change_password_fails_update:
  "stored_hash db uid = Some (hash_password sha256 old) \<Longrightarrow>
   change_password sha256 uid old new (db\<lparr>faults := f # None # Some e # fs\<rparr>)
     = (False, db\<lparr>faults := fs\<rparr>)"
  by (auto simp: change_password_defs run_defs query_defs stored_hash_def select_rows_def
      split: list.splits)

lemma create_post_fails:
  "create_post uid title content category (db\<lparr>faults := Some e # fs\<rparr>)
     = (None, db\<lparr>clock := Suc (Suc (clock db)), faults := fs\<rparr>)"
  by (simp add: body_defs run_defs query_defs)

lemma get_post_by_id_fails:
  "get_post_by_id pid (db\<lparr>faults := Some e # fs\<rparr>) = (None, db\<lparr>faults := fs\<rparr>)"
  by (simp add: body_defs run_defs query_defs)

lemma update_post_fails:
  "update_post pid title content category (db\<lparr>faults := Some e # fs\<rparr>)
     = (False, db\<lparr>clock := Suc (clock db), faults := fs\<rparr>)"
  by (simp add: body_defs run_defs query_defs)

lemma delete_post_fails_comments:
  "delete_post pid (db\<lparr>faults := Some e # fs\<rparr>) = (False, db\<lparr>faults := fs\<rparr>)"
  by (simp add: body_defs run_defs query_defs)

lemma delete_post_fails_likes:
  "delete_post pid (db\<lparr>faults := None # Some e # fs\<rparr>)
     = (False, db\<lparr>comments := delete_rows (\<lambda>c. c_post_id c = pid) (comments db),
                 faults := fs\<rparr>)"
  by (simp add: body_defs run_defs query_defs next_fault_def)

lemma delete_post_fails_posts:
  "delete_post pid (db\<lparr>faults := None # None # Some e # fs\<rparr>)
     = (False, db\<lparr>comments := delete_rows (\<lambda>c. c_post_id c = pid) (comments db),
                 likes := delete_rows (\<lambda>l. l_post_id l = pid) (likes db),
                 faults := fs\<rparr>)"
  by (simp add: body_defs run_defs query_defs next_fault_def)

lemma increment_view_count_fails_select:
  "increment_view_count pid (db\<lparr>faults := Some e # fs\<rparr>) = ((), db\<lparr>faults := fs\<rparr>)"
  by (simp add: body_defs run_defs query_defs)

lemma increment_view_count_fails_update:
  "stored_views db pid = Some v \<Longrightarrow>
   increment_view_count pid (db\<lparr>faults := None # Some e # fs\<rparr>) = ((), db\<lparr>faults := fs\<rparr>)"
  by (auto simp: body_defs run_defs query_defs next_fault_def stored_views_def select_rows_def split: list.splits)

lemma add_comment_fails:
  "add_comment pid uid content parent (db\<lparr>faults := Some e # fs\<rparr>)
     = (None, db\<lparr>clock := Suc (clock db), faults := fs\<rparr>)"
  by (simp add: body_defs run_defs query_defs)

lemma add_like_fails:
  "add_like pid uid (db\<lparr>faults := Some e # fs\<rparr>)
     = (False, db\<lparr>clock := Suc (clock db), faults := fs\<rparr>)"
  by (simp add: body_defs run_defs query_defs)

lemma remove_like_fails:
  "remove_like pid uid (db\<lparr>faults := Some e # fs\<rparr>) = (False, db\<lparr>faults := fs\<rparr>)"
  by (simp add: body_defs run_defs query_defs)

lemma get_like_count_fails:
  "get_like_count pid (db\<lparr>faults := Some e # fs\<rparr>) = (0, db\<lparr>faults := fs\<rparr>)"
  by (simp add: body_defs run_defs query_defs)

lemma check_user_liked_fails:
  "check_user_liked pid uid (db\<lparr>faults := Some e # fs\<rparr>) = (False, db\<lparr>faults := fs\<rparr>)"
  by (simp add: body_defs run_defs query_defs)

lemma get_comment_count_fails:
  "get_comment_count pid (db\<lparr>faults := Some e # fs\<rparr>) = (0, db\<lparr>faults := fs\<rparr>)"
  by (simp add: body_defs run_defs query_defs)

lemma get_total_users_fails:
  "get_total_users (db\<lparr>faults := Some e # fs\<rparr>) = (0, db\<lparr>faults := fs\<rparr>)"
  by (simp add: body_defs run_defs query_defs)

lemma get_total_posts_fails:
  "get_total_posts (db\<lparr>faults := Some e # fs\<rparr>) = (0, db\<lparr>faults := fs\<rparr>)"
  by (simp add: body_defs run_defs query_defs)

lemma add_sample_data_fails:
  "add_sample_data sha256 (db\<lparr>faults := Some e # fs\<rparr>) = ((), db\<lparr>faults := fs\<rparr>)"
  by (simp add: body_defs run_defs query_defs)


lemma change_password_swallows_first:
  "change_password sha256 uid old new (db\<lparr>faults := Some e # fs\<rparr>)
     = change_password sha256 uid old new (db\<lparr>faults := None # fs\<rparr>)"
  by (simp add: change_password_defs)

lemmas sample_defs = sample_users_def sample_user_def sample_posts_def sample_post_def

lemma add_sample_data_fails_insert:
  "users db = [] \<Longrightarrow>
   add_sample_data sha256 (db\<lparr>faults := None # Some e # fs\<rparr>)
     = ((), db\<lparr>clock := Suc (Suc (Suc (clock db))), faults := fs\<rparr>)"
  by (simp add: body_defs run_defs query_defs next_fault_def sample_defs select_rows_def)

lemma add_sample_data_fails_ids:
  "users db = [] \<Longrightarrow>
   add_sample_data sha256 (db\<lparr>faults := None # None # Some e # fs\<rparr>)
     = ((), db\<lparr>users := number_users (users_seq db) (fst (sample_users sha256 db)),
               users_seq := users_seq db + 3,
               clock := Suc (Suc (Suc (clock db))), faults := fs\<rparr>)"
  by (simp add: body_defs run_defs query_defs next_fault_def sample_defs select_rows_def)

lemma add_sample_data_fails_posts:
  "users db = [] \<Longrightarrow>
   add_sample_data sha256 (db\<lparr>faults := None # None # None # Some e # fs\<rparr>)
     = ((), db\<lparr>users := number_users (users_seq db) (fst (sample_users sha256 db)),
               users_seq := users_seq db + 3,
               clock := clock db + 13, faults := fs\<rparr>)"
  by (simp add: body_defs run_defs query_defs next_fault_def sample_defs select_rows_def)


text \<open>
  Claim C6. Every database function catches the failure of a call of the store and
  returns its fixed value instead: false, none, the empty list or zero (nothing, for the
  two functions that return nothing). The result, the returned value and the store, is
  the same whatever the error was, so the caller cannot tell one kind of failure from
  another. This holds at each call of the functions that make several; the first call of
  \<open>change_password\<close>, whose answer is not used, may fail without any effect. Three
  functions, \<open>get_all_posts\<close>, \<open>get_user_posts\<close> and \<open>get_comments\<close>, return the
  empty list without asking the store at all, whatever the network would do. In
  particular \<open>create_user\<close> with a username that is taken, which the store refuses,
  returns the same as \<open>create_user\<close> cut off by the network: false.
\<close>

theorem store_failures_collapse:
  "create_user digest uname mail pw bio (db\<lparr>faults := Some e # fs\<rparr>)
     = (False, db\<lparr>clock := Suc (clock db), faults := fs\<rparr>)
   \<and> (uname \<in> set (map u_username (users db)) \<longrightarrow>
        create_user digest uname mail pw bio (db\<lparr>faults := None # fs\<rparr>)
          = (False, db\<lparr>clock := Suc (clock db), faults := fs\<rparr>))
   \<and> authenticate_user digest uname pw (db\<lparr>faults := Some e # fs\<rparr>)
       = (None, db\<lparr>faults := fs\<rparr>)
   \<and> get_user_by_id uid (db\<lparr>faults := Some e # fs\<rparr>) = (None, db\<lparr>faults := fs\<rparr>)
   \<and> update_user_profile uid mail bio (db\<lparr>faults := Some e # fs\<rparr>)
       = (False, db\<lparr>faults := fs\<rparr>)
   \<and> change_password digest uid old new (db\<lparr>faults := Some e # fs\<rparr>)
       = change_password digest uid old new (db\<lparr>faults := None # fs\<rparr>)
   \<and> change_password digest uid old new (db\<lparr>faults := f # Some e # fs\<rparr>)
       = (False, db\<lparr>faults := fs\<rparr>)
   \<and> (stored_hash db uid = Some (hash_password digest old) \<longrightarrow>
        change_password digest uid old new (db\<lparr>faults := f # None # Some e # fs\<rparr>)
          = (False, db\<lparr>faults := fs\<rparr>))
   \<and> create_post uid title content category (db\<lparr>faults := Some e # fs\<rparr>)
       = (None, db\<lparr>clock := Suc (Suc (clock db)), faults := fs\<rparr>)
   \<and> get_all_posts db = ([], db)
   \<and> get_post_by_id pid (db\<lparr>faults := Some e # fs\<rparr>) = (None, db\<lparr>faults := fs\<rparr>)
   \<and> get_user_posts uid db = ([], db)
   \<and> update_post pid title content category (db\<lparr>faults := Some e # fs\<rparr>)
       = (False, db\<lparr>clock := Suc (clock db), faults := fs\<rparr>)
   \<and> delete_post pid (db\<lparr>faults := Some e # fs\<rparr>) = (False, db\<lparr>faults := fs\<rparr>)
   \<and> delete_post pid (db\<lparr>faults := None # Some e # fs\<rparr>)
       = (False, db\<lparr>comments := delete_rows (\<lambda>c. c_post_id c = pid) (comments db),
                   faults := fs\<rparr>)
   \<and> delete_post pid (db\<lparr>faults := None # None # Some e # fs\<rparr>)
       = (False, db\<lparr>comments := delete_rows (\<lambda>c. c_post_id c = pid) (comments db),
                   likes := delete_rows (\<lambda>l. l_post_id l = pid) (likes db),
                   faults := fs\<rparr>)
   \<and> increment_view_count pid (db\<lparr>faults := Some e # fs\<rparr>) = ((), db\<lparr>faults := fs\<rparr>)
   \<and> (stored_views db pid = Some v \<longrightarrow>
        increment_view_count pid (db\<lparr>faults := None # Some e # fs\<rparr>)
          = ((), db\<lparr>faults := fs\<rparr>))
   \<and> add_comment pid uid content parent (db\<lparr>faults := Some e # fs\<rparr>)
       = (None, db\<lparr>clock := Suc (clock db), faults := fs\<rparr>)
   \<and> get_comments pid db = ([], db)
   \<and> add_like pid uid (db\<lparr>faults := Some e # fs\<rparr>)
       = (False, db\<lparr>clock := Suc (clock db), faults := fs\<rparr>)
   \<and> remove_like pid uid (db\<lparr>faults := Some e # fs\<rparr>) = (False, db\<lparr>faults := fs\<rparr>)
   \<and> get_like_count pid (db\<lparr>faults := Some e # fs\<rparr>) = (0, db\<lparr>faults := fs\<rparr>)
   \<and> check_user_liked pid uid (db\<lparr>faults := Some e # fs\<rparr>) = (False, db\<lparr>faults := fs\<rparr>)
   \<and> get_comment_count pid (db\<lparr>faults := Some e # fs\<rparr>) = (0, db\<lparr>faults := fs\<rparr>)
   \<and> get_total_users (db\<lparr>faults := Some e # fs\<rparr>) = (0, db\<lparr>faults := fs\<rparr>)
   \<and> get_total_posts (db\<lparr>faults := Some e # fs\<rparr>) = (0, db\<lparr>faults := fs\<rparr>)
   \<and> add_sample_data digest (db\<lparr>faults := Some e # fs\<rparr>) = ((), db\<lparr>faults := fs\<rparr>)
   \<and> (users db = [] \<longrightarrow>
        add_sample_data digest (db\<lparr>faults := None # Some e # fs\<rparr>)
          = ((), db\<lparr>clock := Suc (Suc (Suc (clock db))), faults := fs\<rparr>))
   \<and> (users db = [] \<longrightarrow>
        add_sample_data digest (db\<lparr>faults := None # None # Some e # fs\<rparr>)
          = ((), db\<lparr>users := number_users (users_seq db) (fst (sample_users digest db)),
                    users_seq := users_seq db + 3,
                    clock := Suc (Suc (Suc (clock db))), faults := fs\<rparr>))
   \<and> (users db = [] \<longrightarrow>
        add_sample_data digest (db\<lparr>faults := None # None # None # Some e # fs\<rparr>)
          = ((), db\<lparr>users := number_users (users_seq db) (fst (sample_users digest db)),
                    users_seq := users_seq db + 3,
                    clock := clock db + 13, faults := fs\<rparr>))"
  by (intro conjI impI)
     (fact create_user_fails authenticate_user_fails get_user_by_id_fails
        update_user_profile_fails change_password_swallows_first change_password_fails_select
        create_post_fails get_all_posts_never_asks get_post_by_id_fails
        get_user_posts_never_asks update_post_fails
        delete_post_fails_comments delete_post_fails_likes delete_post_fails_posts
        increment_view_count_fails_select add_comment_fails get_comments_never_asks
        add_like_fails remove_like_fails get_like_count_fails check_user_liked_fails
        get_comment_count_fails get_total_users_fails get_total_posts_fails
        add_sample_data_fails
      | erule create_user_taken change_password_fails_update
          increment_view_count_fails_update add_sample_data_fails_insert
          add_sample_data_fails_ids add_sample_data_fails_posts)+

theorem store_failures_collapse_witness:
  "''bob'' \<in> set (map u_username (users demo_store))
   \<and> create_user toy_digest ''bob'' ''bob@y.org'' ''secret1'' [] (demo_store\<lparr>faults := [None]\<rparr>)
       = create_user toy_digest ''bob'' ''bob@y.org'' ''secret1'' []
           (demo_store\<lparr>faults := [Some NetworkError]\<rparr>)
   \<and> fst (create_user toy_digest ''bob'' ''bob@y.org'' ''secret1'' []
             (demo_store\<lparr>faults := [None]\<rparr>)) = False
   \<and> stored_hash demo_store 1 = Some (hash_password toy_digest ''hunter22'')
   \<and> change_password toy_digest 1 ''hunter22'' ''letmein1''
         (demo_store\<lparr>faults := [None, None, Some ConstraintViolation]\<rparr>)
       = (False, demo_store)
   \<and> stored_views demo_store 1 = Some 7
   \<and> increment_view_count 1 (demo_store\<lparr>faults := [None, Some NetworkError]\<rparr>)
       = ((), demo_store)
   \<and> users empty_store = []
   \<and> add_sample_data toy_digest (empty_store\<lparr>faults := [None, Some UniqueViolation]\<rparr>)
       = ((), empty_store\<lparr>clock := 3\<rparr>)
   \<and> length (users (snd (add_sample_data toy_digest
         (empty_store\<lparr>faults := [None, None, None, Some NetworkError]\<rparr>)))) = 3
   \<and> posts (snd (add_sample_data toy_digest
         (empty_store\<lparr>faults := [None, None, None, Some NetworkError]\<rparr>))) = []"
proof -
  have h1: "''bob'' \<in> set (map u_username (users demo_store))"
    by (simp add: demo_store_def)
  have h2: "stored_hash demo_store 1 = Some (hash_password toy_digest ''hunter22'')"
    by (simp add: stored_hash_def demo_store_def select_rows_def hash_password_def)
  have h3: "stored_views demo_store 1 = Some 7"
    by (simp add: stored_views_def demo_store_def select_rows_def)
  have h4: "users empty_store = []"
    by (simp add: empty_store_def)
  have d: "demo_store\<lparr>faults := []\<rparr> = demo_store"
    by (simp add: demo_store_def)
  have e: "empty_store\<lparr>clock := Suc (Suc (Suc (clock empty_store))), faults := []\<rparr>
             = empty_store\<lparr>clock := 3\<rparr>"
    by (simp add: empty_store_def)
  note a = store_failures_collapse[where db = demo_store and fs = "[]" and uname = "''bob''"
      and digest = toy_digest and mail = "''bob@y.org''" and pw = "''secret1''" and bio = "[]"
      and e = NetworkError and uid = 1 and old = "''hunter22''" and pid = 1 and v = 7]
  note b = store_failures_collapse[where db = demo_store and fs = "[]" and digest = toy_digest
      and e = ConstraintViolation and uid = 1 and old = "''hunter22''" and new = "''letmein1''"
      and f = None]
  note c = store_failures_collapse[where db = empty_store and fs = "[]" and digest = toy_digest
      and e = UniqueViolation]
  note c' = store_failures_collapse[where db = empty_store and fs = "[]" and digest = toy_digest
      and e = NetworkError]
  from a h1 have a1: "create_user toy_digest ''bob'' ''bob@y.org'' ''secret1'' []
                        (demo_store\<lparr>faults := [None]\<rparr>)
                      = (False, demo_store\<lparr>clock := Suc (clock demo_store), faults := []\<rparr>)"
    and a2: "create_user toy_digest ''bob'' ''bob@y.org'' ''secret1'' []
                        (demo_store\<lparr>faults := [Some NetworkError]\<rparr>)
                      = (False, demo_store\<lparr>clock := Suc (clock demo_store), faults := []\<rparr>)"
    by blast+
  from a h3 have a3: "increment_view_count 1 (demo_store\<lparr>faults := [None, Some NetworkError]\<rparr>)
                        = ((), demo_store\<lparr>faults := []\<rparr>)"
    by blast
  from b h2 have b1: "change_password toy_digest 1 ''hunter22'' ''letmein1''
                        (demo_store\<lparr>faults := [None, None, Some ConstraintViolation]\<rparr>)
                      = (False, demo_store\<lparr>faults := []\<rparr>)"
    by blast
  from c h4 have c1: "add_sample_data toy_digest (empty_store\<lparr>faults := [None, Some UniqueViolation]\<rparr>)
       = ((), empty_store\<lparr>clock := Suc (Suc (Suc (clock empty_store))), faults := []\<rparr>)"
    by blast
  from c' h4 have c2: "add_sample_data toy_digest
         (empty_store\<lparr>faults := [None, None, None, Some NetworkError]\<rparr>)
       = ((), empty_store\<lparr>users := number_users (users_seq empty_store)
                                        (fst (sample_users toy_digest empty_store)),
                            users_seq := users_seq empty_store + 3,
                            clock := clock empty_store + 13, faults := []\<rparr>)"
    by blast
  have c3: "length (users (snd (add_sample_data toy_digest
         (empty_store\<lparr>faults := [None, None, None, Some NetworkError]\<rparr>)))) = 3"
    and c4: "posts (snd (add_sample_data toy_digest
         (empty_store\<lparr>faults := [None, None, None, Some NetworkError]\<rparr>))) = []"
    unfolding c2 by (simp_all add: sample_defs now_def empty_store_def)
  from a1 a2 a3 b1 c1 c3 c4 h1 h2 h3 h4 show ?thesis
    unfolding d e by simp
qed

end
